theory Spec2Isabelle
  imports Main "HOL-Library.Word"
begin

unbundle bit_operations_syntax

section \<open>Child-process lifecycle of sys.cpp: run, kill, quit, wait\<close>

text \<open>
  The second unit of \<^verbatim>\<open>src/src/main.cpp\<close> (namespace \<^verbatim>\<open>sys\<close>) has four functions,
  each written twice under \<^verbatim>\<open>#ifdef _WIN32\<close>: \<^verbatim>\<open>run\<close>, \<^verbatim>\<open>kill\<close>, \<^verbatim>\<open>quit\<close> and
  \<^verbatim>\<open>wait\<close>.  Both variants are embedded here, the POSIX one with the suffix
  \<open>_posix\<close> and the handle-based one with the suffix \<open>_win\<close>.

  The functions talk to the operating system.  The embedding makes that explicit:
  the operating system is a record of answers (what each system call returns), and
  every function threads the list of calls it has issued so far.  A function of the
  source becomes a function from the answers to its result and the calls it made.
\<close>

subsection \<open>Shared declarations\<close>

text \<open>
  Modelled from the spec: \<^verbatim>\<open>sys::invalid\<close> of \<^verbatim>\<open>err.hpp\<close>, which is not among the sources at
  hand.  It is the failure value of \<^verbatim>\<open>run\<close>; the code of \<^verbatim>\<open>run\<close> returns \<^verbatim>\<open>-1\<close> and
  \<^verbatim>\<open>sys::invalid\<close> for the same purpose, and \<^verbatim>\<open>wait\<close> initialises its status with \<^verbatim>\<open>-1\<close>.
\<close>

definition invalid :: int where
  "invalid = -1"

text \<open>
  Modelled from the spec: \<^verbatim>\<open>sys::fail\<close> of \<^verbatim>\<open>err.hpp\<close>, on an integer result: the result
  is the failure value.
\<close>

definition fail :: "int \<Rightarrow> bool" where
  "fail v = (v = invalid)"

text \<open>\<^verbatim>\<open>EXIT_FAILURE\<close> of \<^verbatim>\<open><cstdlib>\<close>, \<^verbatim>\<open>SIGINT\<close> and \<^verbatim>\<open>SIGTERM\<close> of \<^verbatim>\<open><signal.h>\<close>.\<close>

definition EXIT_FAILURE :: int where
  "EXIT_FAILURE = 1"

definition SIGINT :: int where
  "SIGINT = 2"

definition SIGTERM :: int where
  "SIGTERM = 15"

text \<open>
  Modelled from the spec: the reporting helpers \<^verbatim>\<open>sys::err\<close>, \<^verbatim>\<open>sys::warn\<close> and
  \<^verbatim>\<open>sys::win::err\<close> of \<^verbatim>\<open>err.hpp\<close> and \<^verbatim>\<open>win.hpp\<close>, which are not among the sources at
  hand.  A failure is ``reported, not thrown as fatal'' (section 4.3): a helper records
  its arguments and returns.  It is a call of the list of calls (\<open>Err\<close>, \<open>Warn\<close>, \<open>WinErr\<close>
  and \<open>WinWarn\<close> below); these are the arguments it gets, the source location \<^verbatim>\<open>here\<close>
  left out.
\<close>

datatype arg = S string | I int

subsection \<open>The POSIX system interface\<close>

text \<open>
  The calls the POSIX variant issues, and the two reporting helpers.  \<open>SysWrite\<close> is not
  a call of \<^verbatim>\<open>run\<close> itself: it is what flushing a stdio stream does when \<^verbatim>\<open>exit\<close> runs.
\<close>

datatype call =
    SysPipe
  | SysFork
  | SysClose int
  | SysDup2 int int
  | SysExecvp "string option" "string list"
  | SysExit int
  | SysWrite int string
  | SysKill int int
  | SysWaitpid int
  | Err "arg list"
  | Warn "arg list"

datatype errno = EINTR | ECHILD | EINVAL

text \<open>
  \<^verbatim>\<open>waitpid(pid, &status, 0)\<close> either reaps a child, returning its identifier and
  storing its raw status, or fails: it returns \<^verbatim>\<open>-1\<close>, sets \<^verbatim>\<open>errno\<close> and leaves
  \<^verbatim>\<open>status\<close> untouched.
\<close>

datatype waitpid_result = Reaped int int | WaitError errno

text \<open>
  The answers of the operating system.  The child closes descriptors by number and
  may name the same one twice, so \<open>close_ret\<close> and \<open>dup2_ret\<close> may depend on the calls
  made before; \<open>waitpid_ret\<close> is indexed by the number of earlier \<^verbatim>\<open>waitpid\<close> calls of
  the same \<^verbatim>\<open>wait\<close>; \<open>pipe_fds\<close> by the number of pipes constructed before.  The
  kernel numbers descriptors from zero.  \<^verbatim>\<open>execvp\<close> returns only when it fails, and
  then \<^verbatim>\<open>-1\<close>.  \<open>exit_handlers\<close> are the calls made by what \<^verbatim>\<open>exit\<close> runs before the
  process ends: the functions registered with \<^verbatim>\<open>atexit\<close>, the destructors of static
  objects and the flushing of the stdio streams.  A child of \<^verbatim>\<open>fork\<close> has them from its
  parent.
\<close>

record posix =
  pipe_fds :: "nat \<Rightarrow> (nat \<times> nat) option"
  fork_pid :: int
  close_ret :: "call list \<Rightarrow> int \<Rightarrow> int"
  dup2_ret :: "call list \<Rightarrow> int \<Rightarrow> int \<Rightarrow> int"
  execvp_fails :: bool
  kill_ret :: "int \<Rightarrow> int \<Rightarrow> int"
  waitpid_ret :: "nat \<Rightarrow> int \<Rightarrow> waitpid_result"
  exit_handlers :: "call list"

text \<open>
  The status macros of \<^verbatim>\<open><sys/wait.h>\<close> belong to the platform, not to the
  repository: \<^verbatim>\<open>wait\<close> takes them as a parameter.
\<close>

record wait_macros =
  WIFEXITED :: "int \<Rightarrow> bool"
  WEXITSTATUS :: "int \<Rightarrow> int"
  WIFSTOPPED :: "int \<Rightarrow> bool"
  WSTOPSIG :: "int \<Rightarrow> int"
  WIFSIGNALED :: "int \<Rightarrow> bool"
  WTERMSIG :: "int \<Rightarrow> int"

text \<open>
  The encoding of Linux (glibc, \<^verbatim>\<open>bits/waitstatus.h\<close>): the low seven bits hold the
  terminating signal, \<^verbatim>\<open>0x7f\<close> in the low byte marks a stopped process, and bits
  8 to 15 hold the exit code or the stop signal.  \<^verbatim>\<open>WIFSIGNALED\<close> is
  \<^verbatim>\<open>((signed char) ((status & 0x7f) + 1) >> 1) > 0\<close>.
\<close>

definition linux_macros :: wait_macros where
  "linux_macros = \<lparr>
     WIFEXITED = (\<lambda>status. status AND 0x7f = 0),
     WEXITSTATUS = (\<lambda>status. drop_bit 8 (status AND 0xff00)),
     WIFSTOPPED = (\<lambda>status. status AND 0xff = 0x7f),
     WSTOPSIG = (\<lambda>status. drop_bit 8 (status AND 0xff00)),
     WIFSIGNALED = (\<lambda>status.
        0 < drop_bit 1 (sint (word_of_int ((status AND 0x7f) + 1) :: 8 word))),
     WTERMSIG = (\<lambda>status. status AND 0x7f) \<rparr>"

subsection \<open>sys::kill and sys::quit, POSIX\<close>

text \<open>
  \<^verbatim>\<open>void kill(pid_t pid)\<close> and \<^verbatim>\<open>void quit(pid_t pid)\<close>: the result type is \<open>unit\<close>;
  what the caller can observe besides is the list of calls.
\<close>

definition kill_posix :: "posix \<Rightarrow> int \<Rightarrow> call list \<Rightarrow> unit \<times> call list" where
  "kill_posix os pid tr =
     (let r = kill_ret os pid SIGTERM;
          tr = tr @ [SysKill pid SIGTERM]
      in if fail r then ((), tr @ [Err [S ''SIGTERM'', I pid]]) else ((), tr))"

definition quit_posix :: "posix \<Rightarrow> int \<Rightarrow> call list \<Rightarrow> unit \<times> call list" where
  "quit_posix os pid tr =
     (let r = kill_ret os pid SIGINT;
          tr = tr @ [SysKill pid SIGINT]
      in if fail r then ((), tr @ [Err [S ''SIGINT'', I pid]]) else ((), tr))"

subsection \<open>sys::wait, POSIX\<close>

text \<open>
  The \<^verbatim>\<open>do ... while (pid != parent)\<close> loop.  \<open>n\<close> counts the \<^verbatim>\<open>waitpid\<close> calls made
  so far.  The loop has no bound: it is a partial function, and \<open>None\<close> means that it
  never leaves.
\<close>

definition waitpid_value :: "waitpid_result \<Rightarrow> int" where
  "waitpid_value r = (case r of Reaped p s \<Rightarrow> p | WaitError e \<Rightarrow> -1)"

definition waitpid_status :: "waitpid_result \<Rightarrow> int \<Rightarrow> int" where
  "waitpid_status r status = (case r of Reaped p s \<Rightarrow> s | WaitError e \<Rightarrow> status)"

partial_function (option) wait_loop ::
  "posix \<Rightarrow> int \<Rightarrow> nat \<Rightarrow> int \<Rightarrow> call list \<Rightarrow> (int \<times> call list) option" where
  "wait_loop os parent n status tr =
     (let r = waitpid_ret os n parent;
          pid = waitpid_value r;
          status = waitpid_status r status;
          tr = tr @ [SysWaitpid parent];
          tr = (if fail pid then tr @ [Err [S ''waitpid'', I parent]] else tr)
      in if pid \<noteq> parent then wait_loop os parent (Suc n) status tr
         else Some (status, tr))"

declare wait_loop.simps [code]

text \<open>The chain of tests after the loop (lines 543 to 558 of the file).\<close>

definition decode_status :: "wait_macros \<Rightarrow> int \<Rightarrow> int" where
  "decode_status m status =
     (if WIFEXITED m status then WEXITSTATUS m status
      else if WIFSTOPPED m status then WSTOPSIG m status
      else if WIFSIGNALED m status then WTERMSIG m status
      else status)"

definition wait_posix ::
  "wait_macros \<Rightarrow> posix \<Rightarrow> int \<Rightarrow> call list \<Rightarrow> (int \<times> call list) option" where
  "wait_posix m os pid tr =
     (case wait_loop os pid 0 (-1) tr of
        None \<Rightarrow> None
      | Some (status, tr') \<Rightarrow> Some (decode_status m status, tr'))"

subsection \<open>sys::file::pipe\<close>

text \<open>
  Modelled from the spec: \<^verbatim>\<open>sys::file::pipe\<close> and its two descriptors (\<^verbatim>\<open>file.hpp\<close>,
  not among the sources at hand).  A pipe is a pair of descriptors, read end first,
  as \<^verbatim>\<open>pipe(2)\<close> fills them; a descriptor that holds nothing is \<open>invalid\<close>.
\<close>

type_synonym pipe = "int \<times> int"

text \<open>
  Modelled from the spec: the constructor of \<^verbatim>\<open>sys::file::pipe\<close>.  It allocates the
  pipe and leaves both descriptors \<open>invalid\<close> when that fails.
\<close>

definition pipe_ctor :: "posix \<Rightarrow> nat \<Rightarrow> call list \<Rightarrow> pipe \<times> call list" where
  "pipe_ctor os k tr =
     (case pipe_fds os k of
        Some (rd, wr) \<Rightarrow> ((int rd, int wr), tr @ [SysPipe])
      | None \<Rightarrow> ((invalid, invalid), tr @ [SysPipe]))"

text \<open>Modelled from the spec: \<^verbatim>\<open>fail\<close> on a pipe, which has not both its descriptors.\<close>

definition fail_pipe :: "pipe \<Rightarrow> bool" where
  "fail_pipe p = (fail (fst p) \<or> fail (snd p))"

text \<open>
  Modelled from the spec: \<^verbatim>\<open>pair[i][j].get()\<close> reads the descriptor \<open>j\<close> of a pipe and
  leaves it with the pipe.
\<close>

definition descriptor_get :: "pipe \<Rightarrow> nat \<Rightarrow> int" where
  "descriptor_get p j = (if j = 0 then fst p else snd p)"

text \<open>
  Modelled from the spec: \<^verbatim>\<open>pair[i][j].set()\<close> hands the descriptor \<open>j\<close> of a pipe over to
  the caller and leaves \<open>invalid\<close> behind: the pipe no longer owns it.
\<close>

definition descriptor_set :: "pipe \<Rightarrow> nat \<Rightarrow> int \<times> pipe" where
  "descriptor_set p j =
     (if j = 0 then (fst p, (invalid, snd p)) else (snd p, (fst p, invalid)))"

text \<open>
  Modelled from the spec: the destructor of a descriptor releases what the object still
  owns (section 4.1: ``release all partially-allocated endpoints'').
\<close>

definition descriptor_dtor :: "int \<Rightarrow> call list \<Rightarrow> call list" where
  "descriptor_dtor fd tr = (if fail fd then tr else tr @ [SysClose fd])"

text \<open>Modelled from the spec: the destructor of a pipe destroys its two descriptors.\<close>

definition pipe_dtor :: "pipe \<Rightarrow> call list \<Rightarrow> call list" where
  "pipe_dtor p tr = descriptor_dtor (fst p) (descriptor_dtor (snd p) tr)"

text \<open>
  Modelled from the spec: the array \<^verbatim>\<open>pair[3]\<close> leaves its scope, and its pipes are
  destroyed in reverse order.
\<close>

fun pair_dtor :: "pipe list \<Rightarrow> call list \<Rightarrow> call list" where
  "pair_dtor [] tr = tr"
| "pair_dtor (p # ps) tr = pipe_dtor p (pair_dtor ps tr)"

subsection \<open>sys::run, POSIX\<close>

text \<open>
  \<^verbatim>\<open>run\<close> ends in one of four ways: it returns to its caller (in the parent, with
  the array \<^verbatim>\<open>fd\<close> as it then is), the process image is replaced by \<^verbatim>\<open>execvp\<close>, the
  process exits, or the process crashes on a null pointer.
\<close>

datatype outcome =
    Returns int "int list"
  | Execs string "string list"
  | Exits int
  | Crashes

text \<open>
  \<^verbatim>\<open>exit(status)\<close> and \<^verbatim>\<open>std::exit(status)\<close>: the call, and then what \<^verbatim>\<open>exit\<close> runs before the
  process ends.  It does not unwind the stack: no destructor of \<^verbatim>\<open>pair\<close> runs.
\<close>

definition std_exit :: "posix \<Rightarrow> int \<Rightarrow> call list \<Rightarrow> call list" where
  "std_exit os status tr = tr @ [SysExit status] @ exit_handlers os"

text \<open>The parent's loop \<^verbatim>\<open>fd[i] = pair[i][0 == i].set()\<close>.\<close>

fun parent_loop :: "nat list \<Rightarrow> int list \<Rightarrow> pipe list \<Rightarrow> int list \<times> pipe list" where
  "parent_loop [] fd pair = (fd, pair)"
| "parent_loop (i # is) fd pair =
     (let (k, p) = descriptor_set (pair ! i) (if 0 = i then 1 else 0)
      in parent_loop is (fd[i := k]) (pair[i := p]))"

text \<open>The child's inner loop over \<^verbatim>\<open>j\<close>: both ends of the pipe are closed.\<close>

fun close_loop :: "posix \<Rightarrow> nat list \<Rightarrow> pipe \<Rightarrow> call list \<Rightarrow> (int + pipe) \<times> call list" where
  "close_loop os [] p tr = (Inr p, tr)"
| "close_loop os (j # js) p tr =
     (let (k, p) = descriptor_set p j;
          c = close_ret os tr k;
          tr = tr @ [SysClose k]
      in if fail c then (Inl EXIT_FAILURE, std_exit os EXIT_FAILURE tr)
         else close_loop os js p tr)"

text \<open>
  The child's outer loop over \<^verbatim>\<open>i\<close>.  \<open>Inl\<close> carries the status of
  \<^verbatim>\<open>exit(EXIT_FAILURE)\<close>; the \<^verbatim>\<open>or\<close> does not call \<^verbatim>\<open>dup2\<close> once \<^verbatim>\<open>close\<close> has failed.
\<close>

fun child_loop ::
  "posix \<Rightarrow> nat list \<Rightarrow> pipe list \<Rightarrow> call list \<Rightarrow> (int + pipe list) \<times> call list" where
  "child_loop os [] pair tr = (Inr pair, tr)"
| "child_loop os (i # is) pair tr =
     (let k = descriptor_get (pair ! i) (if 0 \<noteq> i then 1 else 0);
          c = close_ret os tr (int i);
          tr = tr @ [SysClose (int i)]
      in if fail c then (Inl EXIT_FAILURE, std_exit os EXIT_FAILURE tr)
         else
           let d = dup2_ret os tr k (int i);
               tr = tr @ [SysDup2 k (int i)]
           in if fail d then (Inl EXIT_FAILURE, std_exit os EXIT_FAILURE tr)
              else
                (case close_loop os [0, 1] (pair ! i) tr of
                   (Inl status, tr) \<Rightarrow> (Inl status, tr)
                 | (Inr p, tr) \<Rightarrow> child_loop os is (pair[i := p]) tr))"

text \<open>
  The end of the child: \<^verbatim>\<open>args\<close> is \<^verbatim>\<open>argv\<close> up to its null pointer, with a null pointer
  appended.  When \<^verbatim>\<open>argv\<close> is empty, \<^verbatim>\<open>args.front()\<close> is that null pointer: \<^verbatim>\<open>execvp\<close> is
  handed a null file name and the child crashes on it.  Otherwise \<^verbatim>\<open>execvp\<close> replaces the
  process image, or it returns \<^verbatim>\<open>-1\<close> and the child reports it and calls
  \<^verbatim>\<open>std::exit(res)\<close>.
\<close>

definition child_exec :: "posix \<Rightarrow> string list \<Rightarrow> call list \<Rightarrow> outcome \<times> call list" where
  "child_exec os argv tr =
     (case argv of
        [] \<Rightarrow> (Crashes, tr @ [SysExecvp None []])
      | front # _ \<Rightarrow>
          let tr = tr @ [SysExecvp (Some front) argv]
          in if execvp_fails os
             then
               let res = -1;
                   tr = tr @ [Err [S ''execvp'', S front]]
               in (Exits res, std_exit os res tr)
             else (Execs front argv, tr))"

definition run_posix ::
  "posix \<Rightarrow> int list \<Rightarrow> string list \<Rightarrow> call list \<Rightarrow> outcome \<times> call list" where
  "run_posix os fd argv tr =
     (let (p0, tr) = pipe_ctor os 0 tr;
          (p1, tr) = pipe_ctor os 1 tr;
          (p2, tr) = pipe_ctor os 2 tr;
          pair = [p0, p1, p2]
      in if list_ex fail_pipe pair then (Returns invalid fd, pair_dtor pair tr)
         else
           let pid = fork_pid os;
               tr = tr @ [SysFork]
           in if pid \<noteq> 0
              then
                if fail pid
                then (Returns pid fd, pair_dtor pair (tr @ [Err [S ''fork'']]))
                else
                  let (fd, pair) = parent_loop [0, 1, 2] fd pair
                  in (Returns pid fd, pair_dtor pair tr)
              else
                (case child_loop os [0, 1, 2] pair tr of
                   (Inl status, tr) \<Rightarrow> (Exits status, tr)
                 | (Inr pair, tr) \<Rightarrow> child_exec os argv tr))"

subsection \<open>The handle-based system interface\<close>

text \<open>A \<^verbatim>\<open>HANDLE\<close> is a kernel handle or null.\<close>

type_synonym handle = "nat option"

datatype oflag = O_RDONLY | O_WRONLY

datatype hflag = HANDLE_FLAG_INHERIT

text \<open>The calls the handle-based variant issues, and its reporting helpers.\<close>

datatype wcall =
    CreatePipe
  | SetHandleInformation handle hflag bool
  | CreateProcess string handle handle handle
  | CloseHandle handle
  | OpenOsfhandle handle oflag
  | OpenProcess int
  | TerminateProcess handle "32 word"
  | WaitForSingleObject handle
  | GetExitCodeProcess handle
  | MsgQuit int
  | WinErr "arg list"
  | WinWarn "arg list"

record process_information =
  hProcess :: handle
  hThread :: handle
  dwProcessId :: "32 word"

text \<open>
  \<^verbatim>\<open>WaitForSingleObject(h, INFINITE)\<close> returns when the process has ended, fails, or
  never returns.
\<close>

datatype wait_single = WAIT_OBJECT_0 | WAIT_FAILED | WAIT_NEVER

text \<open>
  The answers of the operating system and of the C library.  \<open>snprintf_fails\<close> tells
  whether the \<open>i\<close>-th formatting call reports an error; \<open>msg_quit\<close> is
  \<^verbatim>\<open>sys::win::msg::quit\<close>, which is declared elsewhere.
\<close>

record windows =
  create_pipe :: "nat \<Rightarrow> (nat \<times> nat) option"
  set_handle_information :: "handle \<Rightarrow> bool"
  snprintf_fails :: "nat \<Rightarrow> bool"
  create_process :: "string \<Rightarrow> process_information option"
  open_osfhandle :: "handle \<Rightarrow> oflag \<Rightarrow> int"
  open_process :: "int \<Rightarrow> handle"
  terminate_process :: "handle \<Rightarrow> bool"
  wait_for_single_object :: "handle \<Rightarrow> wait_single"
  get_exit_code_process :: "handle \<Rightarrow> 32 word option"
  msg_quit :: "int \<Rightarrow> bool"

subsection \<open>sys::win::handle, sys::win::pipe and sys::win::process\<close>

text \<open>
  Modelled from the spec: \<^verbatim>\<open>sys::win::pipe\<close> of \<^verbatim>\<open>win.hpp\<close>, which is not among the sources
  at hand.  A pipe has a \<^verbatim>\<open>read\<close> and a \<^verbatim>\<open>write\<close> handle object, each with its \<^verbatim>\<open>HANDLE\<close>
  \<^verbatim>\<open>h\<close>.
\<close>

type_synonym wpipe = "handle \<times> handle"

text \<open>Modelled from the spec: \<^verbatim>\<open>fail\<close> on a handle object, which holds no handle.\<close>

definition fail_handle :: "handle \<Rightarrow> bool" where
  "fail_handle h = (h = None)"

text \<open>
  Modelled from the spec: the constructor of \<^verbatim>\<open>sys::win::pipe\<close>.  It allocates the pipe
  and leaves both handles null when that fails.
\<close>

definition wpipe_ctor :: "windows \<Rightarrow> nat \<Rightarrow> wcall list \<Rightarrow> wpipe \<times> wcall list" where
  "wpipe_ctor os k tr =
     (case create_pipe os k of
        Some (rd, wr) \<Rightarrow> ((Some rd, Some wr), tr @ [CreatePipe])
      | None \<Rightarrow> ((None, None), tr @ [CreatePipe]))"

text \<open>Modelled from the spec: \<^verbatim>\<open>fail\<close> on a pipe, which has not both its handles.\<close>

definition fail_wpipe :: "wpipe \<Rightarrow> bool" where
  "fail_wpipe p = (fail_handle (fst p) \<or> fail_handle (snd p))"

text \<open>
  Modelled from the spec: \<^verbatim>\<open>open(flags)\<close> of a handle object converts the handle into a
  descriptor of the caller (section 4.2), which owns it from then on; the object is left
  with no handle.
\<close>

definition handle_open ::
  "windows \<Rightarrow> handle \<Rightarrow> oflag \<Rightarrow> wcall list \<Rightarrow> (int \<times> handle) \<times> wcall list" where
  "handle_open os h flags tr =
     ((open_osfhandle os h flags, None), tr @ [OpenOsfhandle h flags])"

text \<open>
  Modelled from the spec: the destructor of a handle object closes the handle it still
  owns (section 4.1: ``release all partially-allocated endpoints''; section 4.2: ``close
  the thread handle'').
\<close>

definition handle_dtor :: "handle \<Rightarrow> wcall list \<Rightarrow> wcall list" where
  "handle_dtor h tr = (if fail_handle h then tr else tr @ [CloseHandle h])"

text \<open>Modelled from the spec: the destructor of a pipe destroys its two handle objects.\<close>

definition wpipe_dtor :: "wpipe \<Rightarrow> wcall list \<Rightarrow> wcall list" where
  "wpipe_dtor p tr = handle_dtor (fst p) (handle_dtor (snd p) tr)"

text \<open>
  Modelled from the spec: the array \<^verbatim>\<open>pair[3]\<close> leaves its scope, and its pipes are
  destroyed in reverse order.
\<close>

fun wpair_dtor :: "wpipe list \<Rightarrow> wcall list \<Rightarrow> wcall list" where
  "wpair_dtor [] tr = tr"
| "wpair_dtor (p # ps) tr = wpipe_dtor p (wpair_dtor ps tr)"

text \<open>
  Modelled from the spec: the constructor of \<^verbatim>\<open>sys::win::process\<close> opens the handle of a
  process identifier; the object holds no handle when that fails.
\<close>

definition process_ctor :: "windows \<Rightarrow> int \<Rightarrow> wcall list \<Rightarrow> handle \<times> wcall list" where
  "process_ctor os pid tr = (open_process os pid, tr @ [OpenProcess pid])"

subsection \<open>sys::run, handle-based\<close>

text \<open>
  The first loop: each pipe is tested, then the end the parent keeps is made
  non-inheritable.  \<open>Some r\<close> is a \<^verbatim>\<open>return r\<close> out of the loop.
\<close>

fun mark_loop ::
  "windows \<Rightarrow> nat list \<Rightarrow> wpipe list \<Rightarrow> wcall list \<Rightarrow> int option \<times> wcall list" where
  "mark_loop os [] pair tr = (None, tr)"
| "mark_loop os (n # ns) pair tr =
     (if fail_wpipe (pair ! n) then (Some (-1), tr)
      else
        let h = (if n \<noteq> 0 then fst (pair ! n) else snd (pair ! n));
            ok = set_handle_information os h;
            tr = tr @ [SetHandleInformation h HANDLE_FLAG_INHERIT False]
        in if \<not> ok then (Some invalid, tr @ [WinErr [S ''SetHandleInformation'']])
           else mark_loop os ns pair tr)"

text \<open>\<^verbatim>\<open>MAX_PATH\<close> of \<^verbatim>\<open><windows.h>\<close>, and the null character.\<close>

definition MAX_PATH :: nat where
  "MAX_PATH = 260"

definition NUL :: char where
  "NUL = CHR 0x00"

text \<open>
  \<^verbatim>\<open>snprintf(cmd + j, sz, ...)\<close> with the formatted text \<open>out\<close>: it stores at most
  \<open>sz - 1\<close> characters of \<open>out\<close> and a null character after them, nothing when \<open>sz\<close>
  is zero, and returns the length of \<open>out\<close>.
\<close>

definition snprintf_store :: "char list \<Rightarrow> nat \<Rightarrow> nat \<Rightarrow> string \<Rightarrow> char list" where
  "snprintf_store cmd j sz out =
     (if sz = 0 then cmd
      else
        let m = min (length out) (sz - 1)
        in take j cmd @ take m out @ [NUL] @ drop (j + m + 1) cmd)"

text \<open>
  The formatting loop \<^verbatim>\<open>for (size_t i = 0, j = 0; argv[i]; ++i, ++j)\<close>.  The body adds
  \<open>n\<close> to \<open>j\<close> and the loop header adds one more.  Once \<open>j\<close> is beyond \<^verbatim>\<open>sizeof cmd\<close> the
  pointer \<^verbatim>\<open>cmd + j\<close> is outside the array and \<^verbatim>\<open>sizeof cmd - j\<close> wraps around: the call
  writes outside \<^verbatim>\<open>cmd\<close>, which is \<open>Overrun\<close>.
\<close>

datatype format_error = Format_Failed | Overrun

fun format_loop ::
  "windows \<Rightarrow> string list \<Rightarrow> nat \<Rightarrow> nat \<Rightarrow> char list \<Rightarrow> format_error + char list" where
  "format_loop os [] i j cmd = Inr cmd"
| "format_loop os (a # argv) i j cmd =
     (if MAX_PATH < j then Inl Overrun
      else
        let out = a @ '' '';
            n = (if snprintf_fails os i then -1 else int (length out));
            cmd = (if snprintf_fails os i then cmd else snprintf_store cmd j (MAX_PATH - j) out)
        in if 0 < n then format_loop os argv (Suc i) (Suc (j + nat n)) cmd
           else Inl Format_Failed)"

text \<open>\<^verbatim>\<open>CreateProcess\<close> reads its command line up to the first null character.\<close>

definition c_str :: "char list \<Rightarrow> string" where
  "c_str cmd = takeWhile (\<lambda>c. c \<noteq> NUL) cmd"

text \<open>The last loop: \<^verbatim>\<open>fd[n] = n ? pair[n].read.open(O_RDONLY) : pair[n].write.open(O_WRONLY)\<close>.\<close>

fun open_loop ::
  "windows \<Rightarrow> nat list \<Rightarrow> int list \<Rightarrow> wpipe list \<Rightarrow> wcall list \<Rightarrow>
     (int list \<times> wpipe list) \<times> wcall list" where
  "open_loop os [] fd pair tr = ((fd, pair), tr)"
| "open_loop os (n # ns) fd pair tr =
     (if n \<noteq> 0
      then
        let ((k, h), tr) = handle_open os (fst (pair ! n)) O_RDONLY tr
        in open_loop os ns (fd[n := k]) (pair[n := (h, snd (pair ! n))]) tr
      else
        let ((k, h), tr) = handle_open os (snd (pair ! n)) O_WRONLY tr
        in open_loop os ns (fd[n := k]) (pair[n := (fst (pair ! n), h)]) tr)"

text \<open>
  \<^verbatim>\<open>run\<close> returns to its caller with the array \<^verbatim>\<open>fd\<close> as it then is, unless the
  formatting loop has left the array \<^verbatim>\<open>cmd\<close>.
\<close>

datatype wresult = WReturns int "int list" | WOverrun

definition run_win ::
  "windows \<Rightarrow> int list \<Rightarrow> string list \<Rightarrow> wcall list \<Rightarrow> wresult \<times> wcall list" where
  "run_win os fd argv tr =
     (let (p0, tr) = wpipe_ctor os 0 tr;
          (p1, tr) = wpipe_ctor os 1 tr;
          (p2, tr) = wpipe_ctor os 2 tr;
          pair = [p0, p1, p2]
      in case mark_loop os [0, 1, 2] pair tr of
           (Some r, tr) \<Rightarrow> (WReturns r fd, wpair_dtor pair tr)
         | (None, tr) \<Rightarrow>
             (case format_loop os argv 0 0 (replicate MAX_PATH NUL) of
                Inl Overrun \<Rightarrow> (WOverrun, tr)
              | Inl Format_Failed \<Rightarrow> (WReturns (-1) fd, wpair_dtor pair tr)
              | Inr cmd \<Rightarrow>
                  let tr = tr @ [CreateProcess (c_str cmd) (fst p0) (snd p1) (snd p2)]
                  in case create_process os (c_str cmd) of
                       None \<Rightarrow>
                         (WReturns invalid fd,
                          wpair_dtor pair (tr @ [WinErr [S ''CreateProcess'', S (c_str cmd)]]))
                     | Some info \<Rightarrow>
                         let ((fd, pair), tr) = open_loop os [0, 1, 2] fd pair tr
                         in (WReturns (sint (dwProcessId info)) fd,
                             wpair_dtor pair (handle_dtor (hThread info) tr))))"

subsection \<open>sys::kill, sys::quit and sys::wait, handle-based\<close>

definition kill_win :: "windows \<Rightarrow> int \<Rightarrow> wcall list \<Rightarrow> unit \<times> wcall list" where
  "kill_win os pid tr =
     (let (h, tr) = process_ctor os pid tr
      in if fail_handle h then ((), handle_dtor h (tr @ [WinWarn [I pid]]))
         else
           let ok = terminate_process os h;
               tr = tr @ [TerminateProcess h 0]
           in if \<not> ok then ((), handle_dtor h (tr @ [WinErr [S ''TerminateProcess'', I pid]]))
              else ((), handle_dtor h tr))"

definition quit_win :: "windows \<Rightarrow> int \<Rightarrow> wcall list \<Rightarrow> unit \<times> wcall list" where
  "quit_win os pid tr =
     (let r = msg_quit os pid;
          tr = tr @ [MsgQuit pid]
      in if r then ((), tr @ [WinWarn [I pid]]) else ((), tr))"

text \<open>
  \<^verbatim>\<open>wait\<close> starts from \<^verbatim>\<open>static_cast<DWORD>(sys::invalid)\<close> and returns
  \<^verbatim>\<open>static_cast<int>(code)\<close>.  \<open>None\<close> means that \<^verbatim>\<open>WaitForSingleObject\<close> never returns.
\<close>

definition wait_win :: "windows \<Rightarrow> int \<Rightarrow> wcall list \<Rightarrow> (int \<times> wcall list) option" where
  "wait_win os pid tr =
     (let code = (word_of_int invalid :: 32 word);
          (h, tr) = process_ctor os pid tr
      in if fail_handle h then Some (sint code, handle_dtor h (tr @ [WinWarn [I pid]]))
         else
           let w = wait_for_single_object os h;
               tr = tr @ [WaitForSingleObject h]
           in case w of
                WAIT_NEVER \<Rightarrow> None
              | WAIT_FAILED \<Rightarrow>
                  Some (sint code,
                        handle_dtor h (tr @ [WinErr [S ''WaitForSingleObject'', I pid]]))
              | WAIT_OBJECT_0 \<Rightarrow>
                  let tr = tr @ [GetExitCodeProcess h]
                  in case get_exit_code_process os h of
                       None \<Rightarrow>
                         Some (sint code,
                               handle_dtor h (tr @ [WinErr [S ''GetExitCodeProcess'', I pid]]))
                     | Some code \<Rightarrow> Some (sint code, handle_dtor h tr))"

subsection \<open>Projections of the call list\<close>

fun is_signal :: "call \<Rightarrow> bool" where
  "is_signal (SysKill pid sig) = True"
| "is_signal c = False"

fun is_terminate :: "wcall \<Rightarrow> bool" where
  "is_terminate (TerminateProcess h code) = True"
| "is_terminate c = False"

subsection \<open>Sample systems\<close>

text \<open>
  A POSIX system on which every call succeeds: the pipes get the descriptors 3 to 8,
  \<^verbatim>\<open>fork\<close> returns the child 42 to the parent, and \<^verbatim>\<open>waitpid\<close> reaps the child it is
  asked for, which has exited with code 0.  Nothing is left for \<^verbatim>\<open>exit\<close> to run.
\<close>

definition posix_ok :: posix where
  "posix_ok = \<lparr>
     pipe_fds = (\<lambda>k. Some (3 + 2 * k, 4 + 2 * k)),
     fork_pid = 42,
     close_ret = (\<lambda>h fd. 0),
     dup2_ret = (\<lambda>h old new. new),
     execvp_fails = False,
     kill_ret = (\<lambda>pid sig. 0),
     waitpid_ret = (\<lambda>n pid. Reaped pid 0),
     exit_handlers = [] \<rparr>"

text \<open>The same system seen from the child of the \<^verbatim>\<open>fork\<close>.\<close>

definition posix_child :: posix where
  "posix_child = posix_ok \<lparr> fork_pid := 0 \<rparr>"

text \<open>
  The parent was started with its standard input closed, so the first pipe got the
  descriptor 0 for its read end.  In the child \<^verbatim>\<open>close(0)\<close> closes that read end, and
  \<^verbatim>\<open>dup2(0, 0)\<close> fails, since descriptor 0 is no longer open.
\<close>

definition posix_child_stdin_closed :: posix where
  "posix_child_stdin_closed =
     posix_child \<lparr>
       pipe_fds := (\<lambda>k. if k = 0 then Some (0, 3) else Some (2 + 2 * k, 3 + 2 * k)),
       dup2_ret := (\<lambda>h old new. if old = 0 then -1 else new) \<rparr>"

text \<open>
  In the child \<^verbatim>\<open>execvp\<close> fails.  The parent had written \<^verbatim>\<open>hello\<close> to its standard output
  stream, which still buffers it, and the child has that buffer from the parent: \<^verbatim>\<open>exit\<close>
  flushes it to descriptor 1.
\<close>

definition posix_child_exec_fails :: posix where
  "posix_child_exec_fails =
     posix_child \<lparr> execvp_fails := True, exit_handlers := [SysWrite 1 ''hello''] \<rparr>"

text \<open>The third pipe cannot be allocated; \<^verbatim>\<open>fork\<close> fails.\<close>

definition posix_no_pipe :: posix where
  "posix_no_pipe =
     posix_ok \<lparr> pipe_fds := (\<lambda>k. if k = 2 then None else Some (3 + 2 * k, 4 + 2 * k)) \<rparr>"

definition posix_no_fork :: posix where
  "posix_no_fork = posix_ok \<lparr> fork_pid := -1 \<rparr>"

text \<open>The process is gone: \<^verbatim>\<open>kill\<close> fails, and every \<^verbatim>\<open>waitpid\<close> fails with \<^verbatim>\<open>ECHILD\<close>.\<close>

definition posix_gone :: posix where
  "posix_gone =
     posix_ok \<lparr> kill_ret := (\<lambda>pid sig. -1), waitpid_ret := (\<lambda>n pid. WaitError ECHILD) \<rparr>"

text \<open>
  \<^verbatim>\<open>waitpid\<close> is interrupted twice (\<^verbatim>\<open>EINTR\<close>) and then reaps the child, which has
  exited with code 9.
\<close>

definition posix_late :: posix where
  "posix_late =
     posix_ok \<lparr> waitpid_ret := (\<lambda>n pid. if n < 2 then WaitError EINTR else Reaped pid 0x0900) \<rparr>"

text \<open>\<^verbatim>\<open>waitpid\<close> reaps a child with the raw status \<open>st\<close>.\<close>

definition posix_status :: "int \<Rightarrow> posix" where
  "posix_status st = posix_ok \<lparr> waitpid_ret := (\<lambda>n pid. Reaped pid st) \<rparr>"

text \<open>
  A handle-based system on which every call succeeds: the pipes get the handles 100 to
  105, the new process has the identifier 4242 and has exited with code 0.
\<close>

definition windows_ok :: windows where
  "windows_ok = \<lparr>
     create_pipe = (\<lambda>k. Some (100 + 2 * k, 101 + 2 * k)),
     set_handle_information = (\<lambda>h. True),
     snprintf_fails = (\<lambda>i. False),
     create_process = (\<lambda>cmd.
       Some \<lparr> hProcess = Some 200, hThread = Some 201, dwProcessId = 4242 \<rparr>),
     open_osfhandle = (\<lambda>h flags. case h of None \<Rightarrow> -1 | Some n \<Rightarrow> int n - 97),
     open_process = (\<lambda>pid. Some 300),
     terminate_process = (\<lambda>h. True),
     wait_for_single_object = (\<lambda>h. WAIT_OBJECT_0),
     get_exit_code_process = (\<lambda>h. Some 0),
     msg_quit = (\<lambda>pid. False) \<rparr>"

text \<open>
  Failures: the second pipe cannot be allocated; the read end of the second pipe cannot
  be marked; the process cannot be created; the process identifier is stale.
\<close>

definition windows_no_pipe :: windows where
  "windows_no_pipe =
     windows_ok \<lparr> create_pipe := (\<lambda>k. if k = 1 then None else Some (100 + 2 * k, 101 + 2 * k)) \<rparr>"

definition windows_no_mark :: windows where
  "windows_no_mark = windows_ok \<lparr> set_handle_information := (\<lambda>h. h \<noteq> Some 102) \<rparr>"

definition windows_no_process :: windows where
  "windows_no_process = windows_ok \<lparr> create_process := (\<lambda>cmd. None) \<rparr>"

definition windows_stale :: windows where
  "windows_stale = windows_ok \<lparr> open_process := (\<lambda>pid. None) \<rparr>"

text \<open>The process has ended with the exit code \<^verbatim>\<open>0xFFFFFFFF\<close>.\<close>

definition windows_exit_minus_one :: windows where
  "windows_exit_minus_one = windows_ok \<lparr> get_exit_code_process := (\<lambda>h. Some (-1)) \<rparr>"

section \<open>Properties\<close>

subsection \<open>Auxiliary facts: descriptors and pipes\<close>

lemma less_3: "(k::nat) < 3 \<longleftrightarrow> k = 0 \<or> k = 1 \<or> k = 2"
  by auto

lemma not_fail_int: "\<not> fail (int n)"
  by (simp add: fail_def invalid_def)

lemma fail_invalid: "fail invalid"
  by (simp add: fail_def)

lemma set_descriptor_dtor:
  "set (descriptor_dtor fd tr) = set tr \<union> (if fail fd then {} else {SysClose fd})"
  by (simp add: descriptor_dtor_def)

lemma set_pipe_dtor:
  "set (pipe_dtor p tr) =
     set tr \<union> (if fail (fst p) then {} else {SysClose (fst p)})
            \<union> (if fail (snd p) then {} else {SysClose (snd p)})"
  by (auto simp: pipe_dtor_def set_descriptor_dtor)

lemma pipe_ctor_Some:
  "pipe_fds os k = Some (rd, wr) \<Longrightarrow> pipe_ctor os k tr = ((int rd, int wr), tr @ [SysPipe])"
  by (simp add: pipe_ctor_def)

lemma fail_pipe_ctor:
  "fail_pipe (fst (pipe_ctor os k tr)) \<longleftrightarrow> pipe_fds os k = None"
  by (auto simp: pipe_ctor_def fail_pipe_def not_fail_int fail_invalid split: option.splits)

lemma pipe_ctor_fst:
  "pipe_ctor os k tr = (fst (pipe_ctor os k []), tr @ [SysPipe])"
  by (simp add: pipe_ctor_def split: option.splits)

lemma descriptor_dtor_append:
  "descriptor_dtor fd (tr @ xs) = tr @ descriptor_dtor fd xs"
  by (simp add: descriptor_dtor_def)

lemma pipe_dtor_append: "pipe_dtor p (tr @ xs) = tr @ pipe_dtor p xs"
  by (simp add: pipe_dtor_def descriptor_dtor_append)

lemma pair_dtor_append: "pair_dtor pair (tr @ xs) = tr @ pair_dtor pair xs"
  by (induction pair) (simp_all add: pipe_dtor_append)

lemma handle_dtor_append: "handle_dtor h (tr @ xs) = tr @ handle_dtor h xs"
  by (simp add: handle_dtor_def)

lemma wpipe_dtor_append: "wpipe_dtor p (tr @ xs) = tr @ wpipe_dtor p xs"
  by (simp add: wpipe_dtor_def handle_dtor_append)

lemma wpair_dtor_append: "wpair_dtor pair (tr @ xs) = tr @ wpair_dtor pair xs"
  by (induction pair) (simp_all add: wpipe_dtor_append)

lemma set_handle_dtor:
  "set (handle_dtor h tr) = set tr \<union> (if fail_handle h then {} else {CloseHandle h})"
  by (simp add: handle_dtor_def)

lemma set_wpipe_dtor:
  "set (wpipe_dtor p tr) =
     set tr \<union> (if fail_handle (fst p) then {} else {CloseHandle (fst p)})
            \<union> (if fail_handle (snd p) then {} else {CloseHandle (snd p)})"
  by (auto simp: wpipe_dtor_def set_handle_dtor)

lemma set_wpair_dtor3:
  "set (wpair_dtor [p0, p1, p2] tr) =
     set tr \<union> {CloseHandle h | h. h \<in> {fst p0, snd p0, fst p1, snd p1, fst p2, snd p2} \<and> h \<noteq> None}"
  by (auto simp: set_wpipe_dtor fail_handle_def)

lemma fail_wpipe_ctor:
  "fail_wpipe (fst (wpipe_ctor os k tr)) \<longleftrightarrow> create_pipe os k = None"
  by (auto simp: wpipe_ctor_def fail_wpipe_def fail_handle_def split: option.splits)

lemma wpipe_ctor_fst:
  "wpipe_ctor os k tr = (fst (wpipe_ctor os k []), tr @ [CreatePipe])"
  by (simp add: wpipe_ctor_def split: option.splits)

lemma wpipe_ctor_cases:
  "(create_pipe os k = None \<and> fst (wpipe_ctor os k []) = (None, None)) \<or>
   (\<exists>rd wr. create_pipe os k = Some (rd, wr) \<and> fst (wpipe_ctor os k []) = (Some rd, Some wr))"
  by (cases "create_pipe os k") (auto simp: wpipe_ctor_def)

subsection \<open>The paths of run, POSIX\<close>

text \<open>The child never returns from \<^verbatim>\<open>run\<close>: it ends in \<^verbatim>\<open>execvp\<close>, in \<^verbatim>\<open>exit\<close> or in a crash.\<close>

lemma child_exec_not_Returns: "child_exec os argv tr \<noteq> (Returns r fd', tr')"
  by (simp add: child_exec_def Let_def split: list.splits)

lemma run_posix_child_not_Returns:
  "(case child_loop os is pair tr of
      (Inl status, tr) \<Rightarrow> (Exits status, tr)
    | (Inr pair, tr) \<Rightarrow> child_exec os argv tr) \<noteq> (Returns r fd', tr')"
  by (simp add: child_exec_not_Returns split: prod.splits sum.splits)

lemma parent_loop_pipes:
  "parent_loop [0, 1, 2] fd [p0, p1, p2] =
     (fd[0 := snd p0, 1 := fst p1, 2 := fst p2],
      [(fst p0, invalid), (invalid, snd p1), (invalid, snd p2)])"
  by (simp add: descriptor_set_def)

text \<open>
  \<^verbatim>\<open>run\<close> after any calls \<open>tr\<close>, with its three returns and the child spelled out: what
  \<^verbatim>\<open>run\<close> adds to \<open>tr\<close> on each return.
\<close>

lemma run_posix_unfold:
  "run_posix os fd argv tr =
     (let p0 = fst (pipe_ctor os 0 []); p1 = fst (pipe_ctor os 1 []); p2 = fst (pipe_ctor os 2 []);
          pair = [p0, p1, p2]
      in if pipe_fds os 0 = None \<or> pipe_fds os 1 = None \<or> pipe_fds os 2 = None
         then (Returns invalid fd, tr @ pair_dtor pair [SysPipe, SysPipe, SysPipe])
         else if fork_pid os = 0
         then (case child_loop os [0, 1, 2] pair (tr @ [SysPipe, SysPipe, SysPipe, SysFork]) of
                 (Inl status, tr) \<Rightarrow> (Exits status, tr)
               | (Inr pair, tr) \<Rightarrow> child_exec os argv tr)
         else if fail (fork_pid os)
         then (Returns (fork_pid os) fd,
               tr @ pair_dtor pair [SysPipe, SysPipe, SysPipe, SysFork, Err [S ''fork'']])
         else (Returns (fork_pid os) (fd[0 := snd p0, 1 := fst p1, 2 := fst p2]),
               tr @ pair_dtor [(fst p0, invalid), (invalid, snd p1), (invalid, snd p2)]
                      [SysPipe, SysPipe, SysPipe, SysFork]))"
  unfolding run_posix_def
  apply (subst pipe_ctor_fst [of _ 0])
  apply (subst pipe_ctor_fst [of _ 1])
  apply (subst pipe_ctor_fst [of _ 2])
  apply (simp only: Let_def prod.case list_ex_Nil_iff list_ex_Cons_iff fail_pipe_ctor
      parent_loop_pipes)
  apply (simp del: child_loop.simps pair_dtor.simps add: pair_dtor_append)
  done

text \<open>
  A failure return of \<^verbatim>\<open>run\<close>: the array \<open>fd\<close> is as it was, and among the calls that
  \<^verbatim>\<open>run\<close> has added are the closing of both ends of every pipe it allocated, and no
  \<^verbatim>\<open>fork\<close> when a pipe is missing.
\<close>

lemma run_posix_failure:
  assumes "run_posix os fd argv tr = (Returns r fd', tr')" and "fail r"
  shows "fd' = fd \<and>
    (\<exists>new. tr' = tr @ new \<and>
       (\<forall>k rd wr. k < 3 \<and> pipe_fds os k = Some (rd, wr) \<longrightarrow>
          SysClose (int rd) \<in> set new \<and> SysClose (int wr) \<in> set new) \<and>
       (\<forall>k. k < 3 \<and> pipe_fds os k = None \<longrightarrow> SysFork \<notin> set new))"
proof -
  let ?pair = "[fst (pipe_ctor os 0 []), fst (pipe_ctor os 1 []), fst (pipe_ctor os 2 [])]"
  let ?a = "pair_dtor ?pair [SysPipe, SysPipe, SysPipe]"
  let ?b = "pair_dtor ?pair [SysPipe, SysPipe, SysPipe, SysFork, Err [S ''fork'']]"
  note u = assms(1) [unfolded run_posix_unfold Let_def]
  have c: "fd' = fd \<and>
      (tr' = tr @ ?a \<and> (pipe_fds os 0 = None \<or> pipe_fds os 1 = None \<or> pipe_fds os 2 = None) \<or>
       tr' = tr @ ?b \<and> pipe_fds os 0 \<noteq> None \<and> pipe_fds os 1 \<noteq> None \<and> pipe_fds os 2 \<noteq> None)"
    using u assms(2) run_posix_child_not_Returns
    by (auto simp del: child_loop.simps pair_dtor.simps split: if_splits)
  have a: "SysClose (int rd) \<in> set ?a \<and> SysClose (int wr) \<in> set ?a"
    if "k < 3" "pipe_fds os k = Some (rd, wr)" for k rd wr
    using that by (auto simp: set_pipe_dtor less_3 pipe_ctor_def not_fail_int)
  have b: "SysClose (int rd) \<in> set ?b \<and> SysClose (int wr) \<in> set ?b"
    if "k < 3" "pipe_fds os k = Some (rd, wr)" for k rd wr
    using that by (auto simp: set_pipe_dtor less_3 pipe_ctor_def not_fail_int)
  have f: "SysFork \<notin> set ?a"
    by (auto simp: set_pipe_dtor)
  from c consider "tr' = tr @ ?a" | "tr' = tr @ ?b" "\<forall>k. k < 3 \<longrightarrow> pipe_fds os k \<noteq> None"
    by (auto simp: less_3)
  then have "\<exists>new. tr' = tr @ new \<and>
       (\<forall>k rd wr. k < 3 \<and> pipe_fds os k = Some (rd, wr) \<longrightarrow>
          SysClose (int rd) \<in> set new \<and> SysClose (int wr) \<in> set new) \<and>
       (\<forall>k. k < 3 \<and> pipe_fds os k = None \<longrightarrow> SysFork \<notin> set new)"
  proof cases
    case 1
    with a f show ?thesis by blast
  next
    case 2
    with b show ?thesis by blast
  qed
  with c show ?thesis by blast
qed

lemma run_posix_no_pipe:
  assumes "pipe_fds os k = None" and "k < 3"
  shows "\<exists>new. run_posix os fd argv tr = (Returns invalid fd, tr @ new)"
  using assms by (auto simp: run_posix_unfold Let_def less_3)

lemma run_posix_no_fork:
  assumes "pipe_fds os 0 \<noteq> None" and "pipe_fds os 1 \<noteq> None" and "pipe_fds os 2 \<noteq> None"
    and "fail (fork_pid os)"
  shows "\<exists>new. run_posix os fd argv tr = (Returns invalid fd, tr @ new)"
  using assms by (auto simp: run_posix_unfold Let_def fail_def invalid_def)

subsection \<open>The child of fork\<close>





subsection \<open>The paths of run, handle-based\<close>

lemma mark_loop_3:
  "mark_loop os [0, 1, 2] [p0, p1, p2] tr =
     (if fail_wpipe p0 then (Some (-1), tr)
      else if \<not> set_handle_information os (snd p0)
      then (Some invalid,
            tr @ [SetHandleInformation (snd p0) HANDLE_FLAG_INHERIT False,
                  WinErr [S ''SetHandleInformation'']])
      else if fail_wpipe p1
      then (Some (-1), tr @ [SetHandleInformation (snd p0) HANDLE_FLAG_INHERIT False])
      else if \<not> set_handle_information os (fst p1)
      then (Some invalid,
            tr @ [SetHandleInformation (snd p0) HANDLE_FLAG_INHERIT False,
                  SetHandleInformation (fst p1) HANDLE_FLAG_INHERIT False,
                  WinErr [S ''SetHandleInformation'']])
      else if fail_wpipe p2
      then (Some (-1),
            tr @ [SetHandleInformation (snd p0) HANDLE_FLAG_INHERIT False,
                  SetHandleInformation (fst p1) HANDLE_FLAG_INHERIT False])
      else if \<not> set_handle_information os (fst p2)
      then (Some invalid,
            tr @ [SetHandleInformation (snd p0) HANDLE_FLAG_INHERIT False,
                  SetHandleInformation (fst p1) HANDLE_FLAG_INHERIT False,
                  SetHandleInformation (fst p2) HANDLE_FLAG_INHERIT False,
                  WinErr [S ''SetHandleInformation'']])
      else (None,
            tr @ [SetHandleInformation (snd p0) HANDLE_FLAG_INHERIT False,
                  SetHandleInformation (fst p1) HANDLE_FLAG_INHERIT False,
                  SetHandleInformation (fst p2) HANDLE_FLAG_INHERIT False]))"
  by (simp add: Let_def)

lemma open_loop_3:
  "open_loop os [0, 1, 2] fd [p0, p1, p2] tr =
     ((fd[0 := open_osfhandle os (snd p0) O_WRONLY, 1 := open_osfhandle os (fst p1) O_RDONLY,
          2 := open_osfhandle os (fst p2) O_RDONLY],
       [(fst p0, None), (None, snd p1), (None, snd p2)]),
      tr @ [OpenOsfhandle (snd p0) O_WRONLY, OpenOsfhandle (fst p1) O_RDONLY,
            OpenOsfhandle (fst p2) O_RDONLY])"
  by (simp add: handle_open_def)

lemma mark_loop_append:
  "mark_loop os ns pair (tr @ xs) =
     (fst (mark_loop os ns pair xs), tr @ snd (mark_loop os ns pair xs))"
  by (induction ns arbitrary: xs) (auto simp: Let_def)

text \<open>
  The answers of the handle-based system do not depend on the calls made before: \<^verbatim>\<open>run\<close>
  after any calls \<open>tr\<close> returns what it returns from an empty call list, and adds the same
  calls to \<open>tr\<close>.
\<close>

lemma run_win_shift:
  "run_win os fd argv tr = (fst (run_win os fd argv []), tr @ snd (run_win os fd argv []))"
proof -
  obtain p0 p1 p2 where p: "\<And>t. wpipe_ctor os 0 t = (p0, t @ [CreatePipe])"
    "\<And>t. wpipe_ctor os (Suc 0) t = (p1, t @ [CreatePipe])"
    "\<And>t. wpipe_ctor os 2 t = (p2, t @ [CreatePipe])"
    using wpipe_ctor_fst [of os] by (metis One_nat_def)
  obtain r m where
    m: "mark_loop os [0, Suc 0, 2] [p0, p1, p2] [CreatePipe, CreatePipe, CreatePipe] = (r, m)"
    by (cases "mark_loop os [0, Suc 0, 2] [p0, p1, p2] [CreatePipe, CreatePipe, CreatePipe]")
  have m': "mark_loop os [0, Suc 0, 2] [p0, p1, p2] (tr @ [CreatePipe, CreatePipe, CreatePipe]) =
      (r, tr @ m)"
    using m mark_loop_append [of os "[0, Suc 0, 2]" "[p0, p1, p2]" tr
        "[CreatePipe, CreatePipe, CreatePipe]"]
    by simp
  have "open_loop os [0, Suc 0, 2] fd [p0, p1, p2] t =
      ((fst (fst (open_loop os [0, Suc 0, 2] fd [p0, p1, p2] [])),
        snd (fst (open_loop os [0, Suc 0, 2] fd [p0, p1, p2] []))),
       t @ snd (open_loop os [0, Suc 0, 2] fd [p0, p1, p2] []))" for t
    by (simp add: handle_open_def Let_def)
  then obtain fd2 pair2 x where
    o: "\<And>t. open_loop os [0, Suc 0, 2] fd [p0, p1, p2] t = ((fd2, pair2), t @ x)"
    by blast
  show ?thesis
    unfolding run_win_def
    by (simp add: p m m' o Let_def wpair_dtor_append handle_dtor_append
        del: mark_loop.simps wpair_dtor.simps open_loop.simps
        split: option.splits sum.splits format_error.splits)
qed

lemma run_win_unfold:
  "run_win os fd argv [] =
     (let p0 = fst (wpipe_ctor os 0 []); p1 = fst (wpipe_ctor os 1 []);
          p2 = fst (wpipe_ctor os 2 []); pair = [p0, p1, p2]
      in case mark_loop os [0, 1, 2] pair [CreatePipe, CreatePipe, CreatePipe] of
           (Some r, tr) \<Rightarrow> (WReturns r fd, wpair_dtor pair tr)
         | (None, tr) \<Rightarrow>
             (case format_loop os argv 0 0 (replicate MAX_PATH NUL) of
                Inl Overrun \<Rightarrow> (WOverrun, tr)
              | Inl Format_Failed \<Rightarrow> (WReturns (-1) fd, wpair_dtor pair tr)
              | Inr cmd \<Rightarrow>
                  (case create_process os (c_str cmd) of
                     None \<Rightarrow>
                       (WReturns invalid fd,
                        wpair_dtor pair
                          (tr @ [CreateProcess (c_str cmd) (fst p0) (snd p1) (snd p2),
                                 WinErr [S ''CreateProcess'', S (c_str cmd)]]))
                   | Some info \<Rightarrow>
                       (WReturns (sint (dwProcessId info))
                          (fd[0 := open_osfhandle os (snd p0) O_WRONLY,
                              1 := open_osfhandle os (fst p1) O_RDONLY,
                              2 := open_osfhandle os (fst p2) O_RDONLY]),
                        wpair_dtor [(fst p0, None), (None, snd p1), (None, snd p2)]
                          (handle_dtor (hThread info)
                             (tr @ [CreateProcess (c_str cmd) (fst p0) (snd p1) (snd p2),
                                    OpenOsfhandle (snd p0) O_WRONLY,
                                    OpenOsfhandle (fst p1) O_RDONLY,
                                    OpenOsfhandle (fst p2) O_RDONLY]))))))"
  unfolding run_win_def
  apply (subst wpipe_ctor_fst [of _ 0])
  apply (subst wpipe_ctor_fst [of _ 1])
  apply (subst wpipe_ctor_fst [of _ 2])
  apply (simp only: Let_def prod.case open_loop_3)
  apply (simp del: mark_loop.simps wpair_dtor.simps
      split: prod.splits option.splits sum.splits format_error.splits)
  done

text \<open>
  The failure returns of \<^verbatim>\<open>run\<close> from an empty call list: a pipe is missing, or the pipes
  exist and no process gets created (a mark fails, the formatting fails, or
  \<^verbatim>\<open>CreateProcess\<close> fails).
\<close>

lemma mark_loop_3_fails:
  assumes "fail_wpipe p0 \<or> fail_wpipe p1 \<or> fail_wpipe p2"
  shows "\<exists>t. mark_loop os [0, 1, 2] [p0, p1, p2] tr = (Some invalid, tr @ t) \<and>
           (\<forall>c a b d. CreateProcess c a b d \<notin> set t)"
  unfolding mark_loop_3 using assms by (auto simp: invalid_def)

lemma run_win_no_pipe:
  assumes "create_pipe w k = None" and "k < 3"
  shows "\<exists>new. run_win w fd argv [] = (WReturns invalid fd, new) \<and>
           (\<forall>j rd wr. j < 3 \<and> create_pipe w j = Some (rd, wr) \<longrightarrow>
              CloseHandle (Some rd) \<in> set new \<and> CloseHandle (Some wr) \<in> set new) \<and>
           (\<forall>c a b d. CreateProcess c a b d \<notin> set new)"
proof -
  let ?p0 = "fst (wpipe_ctor w 0 [])" and ?p1 = "fst (wpipe_ctor w 1 [])"
    and ?p2 = "fst (wpipe_ctor w 2 [])"
  have "fail_wpipe ?p0 \<or> fail_wpipe ?p1 \<or> fail_wpipe ?p2"
    using assms by (auto simp: fail_wpipe_ctor less_3)
  from mark_loop_3_fails [OF this, of w "[CreatePipe, CreatePipe, CreatePipe]"]
  obtain t where t: "mark_loop w [0, 1, 2] [?p0, ?p1, ?p2] [CreatePipe, CreatePipe, CreatePipe] =
        (Some invalid, [CreatePipe, CreatePipe, CreatePipe] @ t)"
      and n: "\<forall>c a b d. CreateProcess c a b d \<notin> set t"
    by blast
  let ?new = "wpair_dtor [?p0, ?p1, ?p2] ([CreatePipe, CreatePipe, CreatePipe] @ t)"
  have r: "run_win w fd argv [] = (WReturns invalid fd, ?new)"
    unfolding run_win_unfold Let_def t by simp
  have c: "CloseHandle (Some rd) \<in> set ?new \<and> CloseHandle (Some wr) \<in> set ?new"
    if "j < 3" "create_pipe w j = Some (rd, wr)" for j rd wr
  proof -
    have "fst (wpipe_ctor w j []) = (Some rd, Some wr)"
      using that(2) by (simp add: wpipe_ctor_def)
    with that(1) show ?thesis
      unfolding set_wpair_dtor3 by (auto simp: less_3)
  qed
  have "\<forall>c a b d. CreateProcess c a b d \<notin> set ?new"
    unfolding set_wpair_dtor3 using n by auto
  with r c show ?thesis by blast
qed

lemma run_win_no_process:
  assumes "create_pipe w 0 = Some (r0, w0)" and "create_pipe w 1 = Some (r1, w1)"
    and "create_pipe w 2 = Some (r2, w2)"
    and "\<not> (set_handle_information w (Some w0) \<and> set_handle_information w (Some r1) \<and>
            set_handle_information w (Some r2)) \<or>
         format_loop w argv 0 0 (replicate MAX_PATH NUL) = Inl Format_Failed \<or>
         (\<exists>cmd. format_loop w argv 0 0 (replicate MAX_PATH NUL) = Inr cmd \<and>
                create_process w (c_str cmd) = None)"
  shows "\<exists>new. run_win w fd argv [] = (WReturns invalid fd, new) \<and>
           CloseHandle (Some r0) \<in> set new \<and> CloseHandle (Some w0) \<in> set new \<and>
           CloseHandle (Some r1) \<in> set new \<and> CloseHandle (Some w1) \<in> set new \<and>
           CloseHandle (Some r2) \<in> set new \<and> CloseHandle (Some w2) \<in> set new"
proof -
  let ?pair = "[(Some r0, Some w0), (Some r1, Some w1), (Some r2, Some w2)]"
  let ?ok = "set_handle_information w (Some w0) \<and> set_handle_information w (Some r1) \<and>
    set_handle_information w (Some r2)"
  let ?fmt = "format_loop w argv 0 0 (replicate MAX_PATH NUL)"
  have p: "fst (wpipe_ctor w 0 []) = (Some r0, Some w0)"
    "fst (wpipe_ctor w 1 []) = (Some r1, Some w1)"
    "fst (wpipe_ctor w 2 []) = (Some r2, Some w2)"
    using assms(1-3) by (simp_all add: wpipe_ctor_def)
  from assms(4) consider (mark) "\<not> ?ok" | (fmt) "?ok" "?fmt = Inl Format_Failed"
    | (cp) cmd where "?ok" "?fmt = Inr cmd" "create_process w (c_str cmd) = None"
    by blast
  then have "\<exists>t. run_win w fd argv [] = (WReturns invalid fd, wpair_dtor ?pair t)"
  proof cases
    case mark
    then show ?thesis
      unfolding run_win_unfold Let_def p mark_loop_3
      by (auto simp: fail_wpipe_def fail_handle_def invalid_def simp del: wpair_dtor.simps)
  next
    case fmt
    then show ?thesis
      unfolding run_win_unfold Let_def p mark_loop_3
      by (auto simp: fail_wpipe_def fail_handle_def invalid_def simp del: wpair_dtor.simps)
  next
    case cp
    then show ?thesis
      unfolding run_win_unfold Let_def p mark_loop_3
      by (auto simp: fail_wpipe_def fail_handle_def invalid_def simp del: wpair_dtor.simps)
  qed
  then obtain t where "run_win w fd argv [] = (WReturns invalid fd, wpair_dtor ?pair t)"
    by blast
  moreover have "CloseHandle (Some r0) \<in> set (wpair_dtor ?pair t) \<and>
      CloseHandle (Some w0) \<in> set (wpair_dtor ?pair t) \<and>
      CloseHandle (Some r1) \<in> set (wpair_dtor ?pair t) \<and>
      CloseHandle (Some w1) \<in> set (wpair_dtor ?pair t) \<and>
      CloseHandle (Some r2) \<in> set (wpair_dtor ?pair t) \<and>
      CloseHandle (Some w2) \<in> set (wpair_dtor ?pair t)"
    unfolding set_wpair_dtor3 by simp
  ultimately show ?thesis by blast
qed

text \<open>
  A failure return of \<^verbatim>\<open>run\<close> with no process created: the array \<open>fd\<close> is as it was, and
  among the calls that \<^verbatim>\<open>run\<close> has added are the closing of both handles of every pipe it
  allocated, and no \<^verbatim>\<open>CreateProcess\<close> when a pipe is missing.
\<close>

lemma run_win_failure:
  assumes "run_win w fd argv [] = (WReturns r fd', wtr)"
    and "\<forall>c a b d. CreateProcess c a b d \<in> set wtr \<longrightarrow> create_process w c = None"
  shows "r = invalid \<and> fd' = fd"
    and "create_pipe w k = Some (rd, wr) \<Longrightarrow> k < 3 \<Longrightarrow>
           CloseHandle (Some rd) \<in> set wtr \<and> CloseHandle (Some wr) \<in> set wtr"
    and "create_pipe w k = None \<Longrightarrow> k < 3 \<Longrightarrow> CreateProcess c a b d \<notin> set wtr"
proof -
  note u = assms(1) [unfolded run_win_unfold mark_loop_3 Let_def]
  show "r = invalid \<and> fd' = fd"
    using u assms(2)
    by (auto simp del: wpair_dtor.simps simp: set_wpair_dtor3 set_handle_dtor invalid_def
        split: if_splits sum.splits format_error.splits option.splits)
  show "CloseHandle (Some rd) \<in> set wtr \<and> CloseHandle (Some wr) \<in> set wtr"
    if "create_pipe w k = Some (rd, wr)" "k < 3"
    using u assms(2) that
      wpipe_ctor_cases [of w 0] wpipe_ctor_cases [of w 1] wpipe_ctor_cases [of w 2]
    by (auto simp del: wpair_dtor.simps simp: set_wpair_dtor3 set_handle_dtor less_3
        split: if_splits sum.splits format_error.splits option.splits)
  show "CreateProcess c a b d \<notin> set wtr" if "create_pipe w k = None" "k < 3"
    using u that
      wpipe_ctor_cases [of w 0] wpipe_ctor_cases [of w 1] wpipe_ctor_cases [of w 2]
    by (auto simp del: wpair_dtor.simps simp: set_wpair_dtor3 set_handle_dtor less_3
        fail_wpipe_def fail_handle_def
        split: if_splits sum.splits format_error.splits option.splits)
qed

text \<open>The same after any calls \<open>wt\<close>, about the calls that \<^verbatim>\<open>run\<close> adds to them.\<close>

lemma run_win_failure_after:
  assumes "run_win w fd argv wt = (WReturns r fd', wt')"
  shows "\<exists>new. wt' = wt @ new \<and>
           ((\<forall>c a b d. CreateProcess c a b d \<in> set new \<longrightarrow> create_process w c = None) \<longrightarrow>
              r = invalid \<and> fd' = fd \<and>
              (\<forall>k rd wr. k < 3 \<and> create_pipe w k = Some (rd, wr) \<longrightarrow>
                 CloseHandle (Some rd) \<in> set new \<and> CloseHandle (Some wr) \<in> set new) \<and>
              (\<forall>k. k < 3 \<and> create_pipe w k = None \<longrightarrow>
                 (\<forall>c a b d. CreateProcess c a b d \<notin> set new)))"
proof -
  let ?new = "snd (run_win w fd argv [])"
  from assms run_win_shift [of w fd argv wt]
  have s: "run_win w fd argv [] = (WReturns r fd', ?new)" and t: "wt' = wt @ ?new"
    by (simp_all add: prod_eq_iff)
  have "r = invalid \<and> fd' = fd \<and>
      (\<forall>k rd wr. k < 3 \<and> create_pipe w k = Some (rd, wr) \<longrightarrow>
         CloseHandle (Some rd) \<in> set ?new \<and> CloseHandle (Some wr) \<in> set ?new) \<and>
      (\<forall>k. k < 3 \<and> create_pipe w k = None \<longrightarrow>
         (\<forall>c a b d. CreateProcess c a b d \<notin> set ?new))"
    if n: "\<forall>c a b d. CreateProcess c a b d \<in> set ?new \<longrightarrow> create_process w c = None"
    using run_win_failure(1) [OF s n] run_win_failure(2) [OF s n] run_win_failure(3) [OF s n]
    by blast
  with t show ?thesis by blast
qed
subsection \<open>The loop of wait\<close>

text \<open>When no answer of \<^verbatim>\<open>waitpid\<close> ever carries the requested identifier, the loop never ends.\<close>

lemma wait_loop_never:
  assumes "\<And>n. waitpid_value (waitpid_ret os n parent) \<noteq> parent"
  shows "wait_loop os parent n status tr = None"
proof (cases "wait_loop os parent n status tr")
  case None
  then show ?thesis .
next
  case (Some y)
  have "os = os \<longrightarrow> parent = parent \<longrightarrow> False"
  proof (rule wait_loop.raw_induct
      [where P = "\<lambda>os' parent' n' status' tr' y'. os' = os \<longrightarrow> parent' = parent \<longrightarrow> False",
        OF _ Some])
    fix loop os' parent' n' status' tr' y'
    assume "\<And>os' parent' n' status' tr' y'. loop os' parent' n' status' tr' = Some y'
              \<Longrightarrow> os' = os \<longrightarrow> parent' = parent \<longrightarrow> False"
      and "(let r = waitpid_ret os' n' parent';
          pid = waitpid_value r;
          status = waitpid_status r status';
          tr = tr' @ [SysWaitpid parent'];
          tr = (if fail pid then tr @ [Err [S ''waitpid'', I parent']] else tr)
      in if pid \<noteq> parent' then loop os' parent' (Suc n') status tr
         else Some (status, tr)) = Some y'"
    then show "os' = os \<longrightarrow> parent' = parent \<longrightarrow> False"
      using assms by (auto simp: Let_def split: if_splits)
  qed
  then show ?thesis by simp
qed

text \<open>
  When the \<open>k\<close>-th answer is the first that carries the requested identifier, the loop
  ends there, after \<open>k + 1\<close> calls counted from the start, with the status of that answer.
\<close>

lemma wait_loop_reaps:
  assumes "waitpid_ret os k parent = Reaped parent st"
    and "\<forall>n. j \<le> n \<and> n < k \<longrightarrow> waitpid_value (waitpid_ret os n parent) \<noteq> parent"
    and "j \<le> k"
  shows "\<exists>tr'. wait_loop os parent j status tr = Some (st, tr') \<and>
           count_list tr' (SysWaitpid parent) = count_list tr (SysWaitpid parent) + (Suc k - j)"
  using assms
proof (induction "k - j" arbitrary: j status tr)
  case 0
  then have "j = k" by simp
  with 0 show ?case
    by (subst wait_loop.simps) (simp add: Let_def waitpid_value_def waitpid_status_def)
next
  case (Suc d)
  then have lt: "j < k" by simp
  with Suc.prems have ne: "waitpid_value (waitpid_ret os j parent) \<noteq> parent" by simp
  let ?status = "waitpid_status (waitpid_ret os j parent) status"
  let ?tr = "if fail (waitpid_value (waitpid_ret os j parent))
             then (tr @ [SysWaitpid parent]) @ [Err [S ''waitpid'', I parent]]
             else tr @ [SysWaitpid parent]"
  have step: "wait_loop os parent j status tr = wait_loop os parent (Suc j) ?status ?tr"
    using ne by (subst wait_loop.simps) (simp add: Let_def)
  have "\<exists>tr'. wait_loop os parent (Suc j) ?status ?tr = Some (st, tr') \<and>
           count_list tr' (SysWaitpid parent) = count_list ?tr (SysWaitpid parent) + (Suc k - Suc j)"
    using Suc.hyps(2) Suc.prems lt by (intro Suc.hyps(1)) auto
  moreover have "count_list ?tr (SysWaitpid parent) = Suc (count_list tr (SysWaitpid parent))"
    by simp
  ultimately show ?case using step lt by auto
qed

lemmas wait_eval = wait_posix_def wait_loop.simps Let_def waitpid_value_def waitpid_status_def
  fail_def invalid_def decode_status_def linux_macros_def posix_ok_def posix_status_def

subsection \<open>The status encoding of Linux\<close>

text \<open>On Linux no raw status has two of the three shapes.\<close>

lemma linux_shapes_exclusive:
  "\<not> (WIFEXITED linux_macros st \<and> WIFSTOPPED linux_macros st)"
  "\<not> (WIFEXITED linux_macros st \<and> WIFSIGNALED linux_macros st)"
  "\<not> (WIFSTOPPED linux_macros st \<and> WIFSIGNALED linux_macros st)"
proof -
  have a: "st AND 0x7f = (st AND 0xff) AND 0x7f"
    by (simp add: and.assoc)
  show "\<not> (WIFEXITED linux_macros st \<and> WIFSTOPPED linux_macros st)"
    using a by (auto simp: linux_macros_def)
  show "\<not> (WIFEXITED linux_macros st \<and> WIFSIGNALED linux_macros st)"
    by (auto simp: linux_macros_def)
  show "\<not> (WIFSTOPPED linux_macros st \<and> WIFSIGNALED linux_macros st)"
    using a by (auto simp: linux_macros_def)
qed

subsection \<open>The formatting loop\<close>

lemma nat_one_plus_int: "nat (1 + int n) = Suc n"
  by arith

lemma takeWhile_until:
  "z \<notin> set xs \<Longrightarrow> takeWhile (\<lambda>c. c \<noteq> z) (xs @ z # ys) = xs"
  by (induction xs) auto

lemma length_snprintf_store:
  "j + sz \<le> length cmd \<Longrightarrow> length (snprintf_store cmd j sz out) = length cmd"
  by (auto simp: snprintf_store_def Let_def min_def)

lemma take_snprintf_store:
  "j \<le> length cmd \<Longrightarrow> take j (snprintf_store cmd j sz out) = take j cmd"
  by (simp add: snprintf_store_def Let_def)

text \<open>The loop never writes below its offset \<open>j\<close>.\<close>

lemma format_loop_prefix:
  "format_loop os argv i j cmd = Inr cmd' \<Longrightarrow> length cmd = MAX_PATH \<Longrightarrow>
     take j cmd' = take j cmd \<and> length cmd' = MAX_PATH"
proof (induction argv arbitrary: i j cmd)
  case Nil
  then show ?case by simp
next
  case (Cons a argv)
  let ?out = "a @ '' ''"
  let ?cmd = "snprintf_store cmd j (MAX_PATH - j) ?out"
  from Cons.prems have j: "j \<le> MAX_PATH" and nf: "\<not> snprintf_fails os i"
    and rec: "format_loop os argv (Suc i) (Suc (j + length ?out)) ?cmd = Inr cmd'"
    by (auto simp: Let_def nat_one_plus_int split: if_splits)
  have len: "length ?cmd = MAX_PATH"
    using j Cons.prems(2) by (simp add: length_snprintf_store)
  from Cons.IH [OF rec len]
  have t: "take (Suc (j + length ?out)) cmd' = take (Suc (j + length ?out)) ?cmd"
    and l: "length cmd' = MAX_PATH" by simp_all
  have "take j cmd' = take j (take (Suc (j + length ?out)) cmd')"
    by (simp add: min_def)
  also have "\<dots> = take j ?cmd"
    using t by (simp add: min_def)
  also have "\<dots> = take j cmd"
    using j Cons.prems(2) by (simp add: take_snprintf_store)
  finally show ?case using l by simp
qed

text \<open>
  Whatever follows the first element of \<^verbatim>\<open>argv\<close>, the command line that
  \<^verbatim>\<open>CreateProcess\<close> reads is that element and a space: every later element is stored
  behind the null character that ends the first.
\<close>

lemma command_line_is_first_argument:
  assumes "format_loop os (a # argv) 0 0 (replicate MAX_PATH NUL) = Inr cmd"
    and "NUL \<notin> set a" and "length a + 1 < MAX_PATH"
  shows "c_str cmd = a @ '' ''"
proof -
  let ?out = "a @ '' ''"
  let ?cmd = "snprintf_store (replicate MAX_PATH NUL) 0 (MAX_PATH - 0) ?out"
  from assms(1) have rec: "format_loop os argv (Suc 0) (Suc (0 + length ?out)) ?cmd = Inr cmd"
    by (auto simp: Let_def nat_one_plus_int split: if_splits)
  have len: "length ?cmd = MAX_PATH"
    by (simp add: length_snprintf_store)
  from format_loop_prefix [OF rec len]
  have t: "take (Suc (length ?out)) cmd = take (Suc (length ?out)) ?cmd" by simp
  have "?cmd = ?out @ [NUL] @ drop (length ?out + 1) (replicate MAX_PATH NUL)"
    using assms(3) by (simp add: snprintf_store_def Let_def min_def MAX_PATH_def)
  then have "take (Suc (length ?out)) ?cmd = ?out @ [NUL]"
    by simp
  with t have "take (Suc (length ?out)) cmd = ?out @ [NUL]" by simp
  then have "cmd = (?out @ [NUL]) @ drop (Suc (length ?out)) cmd"
    by (metis append_take_drop_id)
  then have "c_str cmd = takeWhile (\<lambda>c. c \<noteq> NUL) ((?out @ [NUL]) @ drop (Suc (length ?out)) cmd)"
    by (simp add: c_str_def)
  also have "\<dots> = ?out"
    using assms(2) takeWhile_until [of NUL ?out "drop (Suc (length ?out)) cmd"]
    by (simp add: NUL_def)
  finally show ?thesis .
qed

lemmas posix_eval = run_posix_def pipe_ctor_def fail_pipe_def fail_def invalid_def Let_def
  descriptor_get_def descriptor_set_def descriptor_dtor_def pipe_dtor_def child_exec_def
  std_exit_def EXIT_FAILURE_def posix_ok_def posix_child_def posix_child_stdin_closed_def
  posix_child_exec_fails_def posix_no_pipe_def posix_no_fork_def

lemmas windows_eval = run_win_def wpipe_ctor_def fail_wpipe_def fail_handle_def handle_dtor_def
  wpipe_dtor_def handle_open_def c_str_def NUL_def MAX_PATH_def snprintf_store_def invalid_def
  Let_def windows_ok_def windows_no_pipe_def windows_no_mark_def windows_no_process_def

section \<open>The claims\<close>

subsection \<open>C1: wait decodes the raw status\<close>

text \<open>
  C1, as amended.  For every process that \<^verbatim>\<open>wait\<close> reaps (the \<open>k\<close>-th answer of
  \<^verbatim>\<open>waitpid\<close> is the first to carry the requested identifier, with raw status \<open>st\<close>),
  \<^verbatim>\<open>wait\<close> returns a plain integer decoded from \<open>st\<close>: the exit code for a normal
  exit, else the stop signal for a stopped process, else the terminating signal for a
  signaled one.  The result type of \<^verbatim>\<open>wait\<close> is \<^verbatim>\<open>int\<close>: the integer carries no tag.
\<close>

theorem wait_posix_decodes:
  assumes "waitpid_ret os k pid = Reaped pid st"
    and "\<forall>n<k. waitpid_value (waitpid_ret os n pid) \<noteq> pid"
  shows "\<exists>r tr'. wait_posix m os pid tr = Some (r, tr') \<and>
           (WIFEXITED m st \<longrightarrow> r = WEXITSTATUS m st) \<and>
           (\<not> WIFEXITED m st \<and> WIFSTOPPED m st \<longrightarrow> r = WSTOPSIG m st) \<and>
           (\<not> WIFEXITED m st \<and> \<not> WIFSTOPPED m st \<and> WIFSIGNALED m st \<longrightarrow> r = WTERMSIG m st)"
proof -
  from wait_loop_reaps [of os k pid st 0 "-1" tr] assms
  obtain tr' where "wait_loop os pid 0 (-1) tr = Some (st, tr')"
    by auto
  then have "wait_posix m os pid tr = Some (decode_status m st, tr')"
    by (simp add: wait_posix_def)
  then show ?thesis
    by (simp add: decode_status_def)
qed

text \<open>
  Witness of C1 on Linux: a child that exited with code 9 (raw status \<^verbatim>\<open>0x0900\<close>), one
  stopped by signal 19 (\<^verbatim>\<open>0x137f\<close>) and one terminated by signal 9 (raw status 9).
\<close>

theorem wait_posix_decodes_witness:
  "waitpid_ret (posix_status 0x0900) 0 42 = Reaped 42 0x0900 \<and>
   WIFEXITED linux_macros 0x0900 \<and>
   wait_posix linux_macros (posix_status 0x0900) 42 [] = Some (9, [SysWaitpid 42]) \<and>
   WIFSTOPPED linux_macros 0x137f \<and>
   wait_posix linux_macros (posix_status 0x137f) 42 [] = Some (19, [SysWaitpid 42]) \<and>
   WIFSIGNALED linux_macros 9 \<and>
   wait_posix linux_macros (posix_status 9) 42 [] = Some (9, [SysWaitpid 42])"
  using wait_posix_decodes [of "posix_status 0x0900" 0 42 "0x0900" linux_macros "[]"]
    wait_posix_decodes [of "posix_status 0x137f" 0 42 "0x137f" linux_macros "[]"]
    wait_posix_decodes [of "posix_status 9" 0 42 9 linux_macros "[]"]
  by (simp add: wait_eval)

text \<open>
  Counterexample to C1 as stated: a normal exit with code 9 and a termination by signal
  9 are different shapes of the raw status, and \<^verbatim>\<open>wait\<close> returns the same value for
  both.  The two cases are conflated at the interface.
\<close>

theorem wait_untagged_counterexample:
  "WIFEXITED linux_macros 0x0900 \<and> WIFSIGNALED linux_macros 9 \<and>
   \<not> WIFEXITED linux_macros 9 \<and> \<not> WIFSTOPPED linux_macros 9 \<and>
   wait_posix linux_macros (posix_status 0x0900) 42 [] = Some (9, [SysWaitpid 42]) \<and>
   wait_posix linux_macros (posix_status 9) 42 [] = Some (9, [SysWaitpid 42])"
  by (simp add: wait_eval)

subsection \<open>C2: run fails atomically\<close>

text \<open>
  C2.  \<^verbatim>\<open>run\<close> is called after any calls \<open>tr\<close> (\<open>wt\<close> on the handle-based platform), and
  \<open>new\<close> is what it adds to them.  On POSIX: whenever \<^verbatim>\<open>run\<close> returns the failure value,
  the caller's array \<^verbatim>\<open>fd\<close> is untouched, both ends of every pipe that was allocated in
  the call are closed in \<open>new\<close>, and \<^verbatim>\<open>fork\<close> is not called when a pipe is missing; when a
  pipe cannot be allocated, \<^verbatim>\<open>run\<close> does return the failure value, and so it does when
  \<^verbatim>\<open>fork\<close> fails after the pipes exist.  On the handle-based platform: whenever \<^verbatim>\<open>run\<close>
  returns with no process created, it returns the failure value, \<^verbatim>\<open>fd\<close> is untouched,
  both handles of every allocated pipe are closed in \<open>new\<close>, and \<^verbatim>\<open>CreateProcess\<close> is not
  called when a pipe is missing; when a pipe cannot be allocated, \<^verbatim>\<open>run\<close> does return
  the failure value without calling \<^verbatim>\<open>CreateProcess\<close>; and when the three pipes exist and
  a handle cannot be marked, the command line cannot be formatted, or \<^verbatim>\<open>CreateProcess\<close>
  fails, \<^verbatim>\<open>run\<close> returns the failure value with all six handles closed.  The closing is
  the work of the destructors of the pipe classes.
\<close>

theorem run_fails_atomically:
  "(run_posix os fd argv tr = (Returns r fd', tr') \<and> fail r \<longrightarrow>
      fd' = fd \<and>
      (\<exists>new. tr' = tr @ new \<and>
         (\<forall>k rd wr. k < 3 \<and> pipe_fds os k = Some (rd, wr) \<longrightarrow>
            SysClose (int rd) \<in> set new \<and> SysClose (int wr) \<in> set new) \<and>
         (\<forall>k. k < 3 \<and> pipe_fds os k = None \<longrightarrow> SysFork \<notin> set new))) \<and>
   (\<forall>k. k < 3 \<and> pipe_fds os k = None \<longrightarrow>
      (\<exists>new. run_posix os fd argv tr = (Returns invalid fd, tr @ new))) \<and>
   (pipe_fds os 0 \<noteq> None \<and> pipe_fds os 1 \<noteq> None \<and> pipe_fds os 2 \<noteq> None \<and>
    fail (fork_pid os) \<longrightarrow>
      (\<exists>new. run_posix os fd argv tr = (Returns invalid fd, tr @ new))) \<and>
   (run_win w fd argv wt = (WReturns r' fd'', wt') \<longrightarrow>
      (\<exists>new. wt' = wt @ new \<and>
         ((\<forall>c a b d. CreateProcess c a b d \<in> set new \<longrightarrow> create_process w c = None) \<longrightarrow>
            r' = invalid \<and> fd'' = fd \<and>
            (\<forall>k rd wr. k < 3 \<and> create_pipe w k = Some (rd, wr) \<longrightarrow>
               CloseHandle (Some rd) \<in> set new \<and> CloseHandle (Some wr) \<in> set new) \<and>
            (\<forall>k. k < 3 \<and> create_pipe w k = None \<longrightarrow>
               (\<forall>c a b d. CreateProcess c a b d \<notin> set new))))) \<and>
   (\<forall>k. k < 3 \<and> create_pipe w k = None \<longrightarrow>
      (\<exists>new. run_win w fd argv wt = (WReturns invalid fd, wt @ new) \<and>
         (\<forall>c a b d. CreateProcess c a b d \<notin> set new))) \<and>
   (create_pipe w 0 = Some (r0, w0) \<and> create_pipe w 1 = Some (r1, w1) \<and>
    create_pipe w 2 = Some (r2, w2) \<and>
    (\<not> (set_handle_information w (Some w0) \<and> set_handle_information w (Some r1) \<and>
        set_handle_information w (Some r2)) \<or>
     format_loop w argv 0 0 (replicate MAX_PATH NUL) = Inl Format_Failed \<or>
     (\<exists>cmd. format_loop w argv 0 0 (replicate MAX_PATH NUL) = Inr cmd \<and>
            create_process w (c_str cmd) = None)) \<longrightarrow>
      (\<exists>new. run_win w fd argv wt = (WReturns invalid fd, wt @ new) \<and>
         CloseHandle (Some r0) \<in> set new \<and> CloseHandle (Some w0) \<in> set new \<and>
         CloseHandle (Some r1) \<in> set new \<and> CloseHandle (Some w1) \<in> set new \<and>
         CloseHandle (Some r2) \<in> set new \<and> CloseHandle (Some w2) \<in> set new))"
proof (intro conjI)
  show "run_posix os fd argv tr = (Returns r fd', tr') \<and> fail r \<longrightarrow>
      fd' = fd \<and>
      (\<exists>new. tr' = tr @ new \<and>
         (\<forall>k rd wr. k < 3 \<and> pipe_fds os k = Some (rd, wr) \<longrightarrow>
            SysClose (int rd) \<in> set new \<and> SysClose (int wr) \<in> set new) \<and>
         (\<forall>k. k < 3 \<and> pipe_fds os k = None \<longrightarrow> SysFork \<notin> set new))"
    using run_posix_failure [of os fd argv tr r fd' tr'] by blast
  show "\<forall>k. k < 3 \<and> pipe_fds os k = None \<longrightarrow>
      (\<exists>new. run_posix os fd argv tr = (Returns invalid fd, tr @ new))"
    using run_posix_no_pipe [of os _ fd argv tr] by blast
  show "pipe_fds os 0 \<noteq> None \<and> pipe_fds os 1 \<noteq> None \<and> pipe_fds os 2 \<noteq> None \<and>
    fail (fork_pid os) \<longrightarrow>
      (\<exists>new. run_posix os fd argv tr = (Returns invalid fd, tr @ new))"
    using run_posix_no_fork [of os fd argv tr] by blast
  show "run_win w fd argv wt = (WReturns r' fd'', wt') \<longrightarrow>
      (\<exists>new. wt' = wt @ new \<and>
         ((\<forall>c a b d. CreateProcess c a b d \<in> set new \<longrightarrow> create_process w c = None) \<longrightarrow>
            r' = invalid \<and> fd'' = fd \<and>
            (\<forall>k rd wr. k < 3 \<and> create_pipe w k = Some (rd, wr) \<longrightarrow>
               CloseHandle (Some rd) \<in> set new \<and> CloseHandle (Some wr) \<in> set new) \<and>
            (\<forall>k. k < 3 \<and> create_pipe w k = None \<longrightarrow>
               (\<forall>c a b d. CreateProcess c a b d \<notin> set new))))"
    using run_win_failure_after [of w fd argv wt r' fd'' wt'] by (intro impI)
  show "\<forall>k. k < 3 \<and> create_pipe w k = None \<longrightarrow>
      (\<exists>new. run_win w fd argv wt = (WReturns invalid fd, wt @ new) \<and>
         (\<forall>c a b d. CreateProcess c a b d \<notin> set new))"
  proof (intro allI impI, elim conjE)
    fix k
    assume "k < 3" "create_pipe w k = None"
    from run_win_no_pipe [OF this(2) this(1), of fd argv] obtain new
      where "run_win w fd argv [] = (WReturns invalid fd, new)"
        and "\<forall>c a b d. CreateProcess c a b d \<notin> set new"
      by blast
    with run_win_shift [of w fd argv wt]
    show "\<exists>new. run_win w fd argv wt = (WReturns invalid fd, wt @ new) \<and>
         (\<forall>c a b d. CreateProcess c a b d \<notin> set new)"
      by simp
  qed
  show "create_pipe w 0 = Some (r0, w0) \<and> create_pipe w 1 = Some (r1, w1) \<and>
    create_pipe w 2 = Some (r2, w2) \<and>
    (\<not> (set_handle_information w (Some w0) \<and> set_handle_information w (Some r1) \<and>
        set_handle_information w (Some r2)) \<or>
     format_loop w argv 0 0 (replicate MAX_PATH NUL) = Inl Format_Failed \<or>
     (\<exists>cmd. format_loop w argv 0 0 (replicate MAX_PATH NUL) = Inr cmd \<and>
            create_process w (c_str cmd) = None)) \<longrightarrow>
      (\<exists>new. run_win w fd argv wt = (WReturns invalid fd, wt @ new) \<and>
         CloseHandle (Some r0) \<in> set new \<and> CloseHandle (Some w0) \<in> set new \<and>
         CloseHandle (Some r1) \<in> set new \<and> CloseHandle (Some w1) \<in> set new \<and>
         CloseHandle (Some r2) \<in> set new \<and> CloseHandle (Some w2) \<in> set new)"
  proof (intro impI, elim conjE)
    assume "create_pipe w 0 = Some (r0, w0)" "create_pipe w 1 = Some (r1, w1)"
      "create_pipe w 2 = Some (r2, w2)"
      "\<not> (set_handle_information w (Some w0) \<and> set_handle_information w (Some r1) \<and>
        set_handle_information w (Some r2)) \<or>
       format_loop w argv 0 0 (replicate MAX_PATH NUL) = Inl Format_Failed \<or>
       (\<exists>cmd. format_loop w argv 0 0 (replicate MAX_PATH NUL) = Inr cmd \<and>
              create_process w (c_str cmd) = None)"
    from run_win_no_process [OF this, of fd] obtain new
      where "run_win w fd argv [] = (WReturns invalid fd, new)"
        and "CloseHandle (Some r0) \<in> set new \<and> CloseHandle (Some w0) \<in> set new \<and>
         CloseHandle (Some r1) \<in> set new \<and> CloseHandle (Some w1) \<in> set new \<and>
         CloseHandle (Some r2) \<in> set new \<and> CloseHandle (Some w2) \<in> set new"
      by blast
    with run_win_shift [of w fd argv wt]
    show "\<exists>new. run_win w fd argv wt = (WReturns invalid fd, wt @ new) \<and>
         CloseHandle (Some r0) \<in> set new \<and> CloseHandle (Some w0) \<in> set new \<and>
         CloseHandle (Some r1) \<in> set new \<and> CloseHandle (Some w1) \<in> set new \<and>
         CloseHandle (Some r2) \<in> set new \<and> CloseHandle (Some w2) \<in> set new"
      by simp
  qed
qed

text \<open>
  Witness of C2, \<^verbatim>\<open>run\<close> being called after an earlier \<^verbatim>\<open>waitpid\<close> (POSIX) or
  \<^verbatim>\<open>OpenProcess\<close> (handle-based): the third pipe cannot be allocated, \<^verbatim>\<open>fork\<close> fails, the
  second pipe cannot be allocated, and \<^verbatim>\<open>CreateProcess\<close> fails.  Every descriptor and
  every handle that was allocated is closed again.
\<close>

theorem run_fails_atomically_witness:
  "pipe_fds posix_no_pipe 2 = None \<and>
   run_posix posix_no_pipe [-1, -1, -1] [''ls''] [SysWaitpid 41] =
     (Returns invalid [-1, -1, -1],
      [SysWaitpid 41,
       SysPipe, SysPipe, SysPipe, SysClose 6, SysClose 5, SysClose 4, SysClose 3]) \<and>
   fail (fork_pid posix_no_fork) \<and>
   run_posix posix_no_fork [-1, -1, -1] [''ls''] [SysWaitpid 41] =
     (Returns invalid [-1, -1, -1],
      [SysWaitpid 41,
       SysPipe, SysPipe, SysPipe, SysFork, Err [S ''fork''],
       SysClose 8, SysClose 7, SysClose 6, SysClose 5, SysClose 4, SysClose 3]) \<and>
   create_pipe windows_no_pipe 1 = None \<and>
   run_win windows_no_pipe [-1, -1, -1] [''ls''] [OpenProcess 41] =
     (WReturns invalid [-1, -1, -1],
      [OpenProcess 41,
       CreatePipe, CreatePipe, CreatePipe,
       SetHandleInformation (Some 101) HANDLE_FLAG_INHERIT False,
       CloseHandle (Some 105), CloseHandle (Some 104),
       CloseHandle (Some 101), CloseHandle (Some 100)]) \<and>
   create_process windows_no_process ''ls '' = None \<and>
   run_win windows_no_process [-1, -1, -1] [''ls''] [OpenProcess 41] =
     (WReturns invalid [-1, -1, -1],
      [OpenProcess 41,
       CreatePipe, CreatePipe, CreatePipe,
       SetHandleInformation (Some 101) HANDLE_FLAG_INHERIT False,
       SetHandleInformation (Some 102) HANDLE_FLAG_INHERIT False,
       SetHandleInformation (Some 104) HANDLE_FLAG_INHERIT False,
       CreateProcess ''ls '' (Some 100) (Some 103) (Some 105),
       WinErr [S ''CreateProcess'', S ''ls ''],
       CloseHandle (Some 105), CloseHandle (Some 104), CloseHandle (Some 103),
       CloseHandle (Some 102), CloseHandle (Some 101), CloseHandle (Some 100)])"
proof -
  have p: "run_posix posix_no_pipe [-1, -1, -1] [''ls''] [SysWaitpid 41] =
     (Returns invalid [-1, -1, -1],
      [SysWaitpid 41,
       SysPipe, SysPipe, SysPipe, SysClose 6, SysClose 5, SysClose 4, SysClose 3])"
    by (simp add: posix_eval)
  have f: "run_posix posix_no_fork [-1, -1, -1] [''ls''] [SysWaitpid 41] =
     (Returns invalid [-1, -1, -1],
      [SysWaitpid 41,
       SysPipe, SysPipe, SysPipe, SysFork, Err [S ''fork''],
       SysClose 8, SysClose 7, SysClose 6, SysClose 5, SysClose 4, SysClose 3])"
    by (simp add: posix_eval)
  have v: "run_win windows_no_pipe [-1, -1, -1] [''ls''] [OpenProcess 41] =
     (WReturns invalid [-1, -1, -1],
      [OpenProcess 41,
       CreatePipe, CreatePipe, CreatePipe,
       SetHandleInformation (Some 101) HANDLE_FLAG_INHERIT False,
       CloseHandle (Some 105), CloseHandle (Some 104),
       CloseHandle (Some 101), CloseHandle (Some 100)])"
    by (simp add: windows_eval)
  have w: "run_win windows_no_process [-1, -1, -1] [''ls''] [OpenProcess 41] =
     (WReturns invalid [-1, -1, -1],
      [OpenProcess 41,
       CreatePipe, CreatePipe, CreatePipe,
       SetHandleInformation (Some 101) HANDLE_FLAG_INHERIT False,
       SetHandleInformation (Some 102) HANDLE_FLAG_INHERIT False,
       SetHandleInformation (Some 104) HANDLE_FLAG_INHERIT False,
       CreateProcess ''ls '' (Some 100) (Some 103) (Some 105),
       WinErr [S ''CreateProcess'', S ''ls ''],
       CloseHandle (Some 105), CloseHandle (Some 104), CloseHandle (Some 103),
       CloseHandle (Some 102), CloseHandle (Some 101), CloseHandle (Some 100)])"
    by (simp add: windows_eval)
  have n: "pipe_fds posix_no_pipe 2 = None" "fail (fork_pid posix_no_fork)"
    "create_pipe windows_no_pipe 1 = None" "create_process windows_no_process ''ls '' = None"
    by (simp_all add: posix_no_pipe_def posix_no_fork_def posix_ok_def windows_no_process_def
        windows_no_pipe_def windows_ok_def fail_def invalid_def)
  note t = run_fails_atomically [where os = posix_no_pipe and fd = "[-1, -1, -1]"
      and argv = "[''ls'']" and tr = "[SysWaitpid 41]" and w = windows_no_pipe
      and wt = "[OpenProcess 41]"]
  from t [THEN conjunct2, THEN conjunct1, rule_format, of 2] n(1)
  have "\<exists>new. run_posix posix_no_pipe [-1, -1, -1] [''ls''] [SysWaitpid 41] =
      (Returns invalid [-1, -1, -1], [SysWaitpid 41] @ new)"
    by simp
  with p f v w n show ?thesis by simp
qed

subsection \<open>C3: the loop of wait\<close>

text \<open>
  C3, as amended.  On the POSIX backend \<^verbatim>\<open>wait\<close> calls \<^verbatim>\<open>waitpid\<close> on the requested
  identifier again and again until the returned identifier equals the requested one.
  It goes on after every other answer, whatever the error of a failed call: when the
  \<open>k\<close>-th answer is the first to carry the requested identifier, \<^verbatim>\<open>wait\<close> has called
  \<^verbatim>\<open>waitpid\<close> exactly \<open>k + 1\<close> times and returns the decoded status of that answer; and
  when no answer ever carries it, \<^verbatim>\<open>wait\<close> does not return.
\<close>

theorem wait_posix_reaps:
  "(waitpid_ret os k pid = Reaped pid st \<and>
    (\<forall>n<k. waitpid_value (waitpid_ret os n pid) \<noteq> pid) \<longrightarrow>
      (\<exists>tr'. wait_posix m os pid tr = Some (decode_status m st, tr') \<and>
             count_list tr' (SysWaitpid pid) = count_list tr (SysWaitpid pid) + Suc k)) \<and>
   ((\<forall>n. waitpid_value (waitpid_ret os n pid) \<noteq> pid) \<longrightarrow> wait_posix m os pid tr = None)"
proof (intro conjI impI)
  assume a: "waitpid_ret os k pid = Reaped pid st \<and>
    (\<forall>n<k. waitpid_value (waitpid_ret os n pid) \<noteq> pid)"
  from wait_loop_reaps [of os k pid st 0 "-1" tr] a
  obtain tr' where "wait_loop os pid 0 (-1) tr = Some (st, tr')"
    and "count_list tr' (SysWaitpid pid) = count_list tr (SysWaitpid pid) + Suc k"
    by auto
  then show "\<exists>tr'. wait_posix m os pid tr = Some (decode_status m st, tr') \<and>
             count_list tr' (SysWaitpid pid) = count_list tr (SysWaitpid pid) + Suc k"
    by (simp add: wait_posix_def)
next
  assume "\<forall>n. waitpid_value (waitpid_ret os n pid) \<noteq> pid"
  then have "wait_loop os pid 0 (-1) tr = None"
    by (intro wait_loop_never) simp
  then show "wait_posix m os pid tr = None"
    by (simp add: wait_posix_def)
qed

text \<open>
  Witness of C3: \<^verbatim>\<open>waitpid\<close> is interrupted twice and then reaps the child 42 with exit
  code 9.  \<^verbatim>\<open>wait\<close> reports both failures, calls three times and returns 9.
\<close>

theorem wait_posix_reaps_witness:
  "waitpid_ret posix_late 2 42 = Reaped 42 0x0900 \<and>
   waitpid_value (waitpid_ret posix_late 0 42) \<noteq> 42 \<and>
   waitpid_value (waitpid_ret posix_late 1 42) \<noteq> 42 \<and>
   wait_posix linux_macros posix_late 42 [] =
     Some (9, [SysWaitpid 42, Err [S ''waitpid'', I 42], SysWaitpid 42,
               Err [S ''waitpid'', I 42], SysWaitpid 42]) \<and>
   waitpid_value (waitpid_ret posix_gone 0 42) \<noteq> 42 \<and>
   wait_posix linux_macros posix_gone 42 [] = None"
proof -
  have g: "\<forall>n. waitpid_value (waitpid_ret posix_gone n 42) \<noteq> 42"
    by (simp add: posix_gone_def posix_ok_def waitpid_value_def)
  from wait_posix_reaps [of posix_gone _ 42 _ linux_macros "[]"] g
  have n: "wait_posix linux_macros posix_gone 42 [] = None"
    by simp
  have l: "waitpid_ret posix_late 2 42 = Reaped 42 0x0900"
    "waitpid_value (waitpid_ret posix_late 0 42) \<noteq> 42"
    "waitpid_value (waitpid_ret posix_late 1 42) \<noteq> 42"
    by (simp_all add: posix_late_def posix_ok_def waitpid_value_def)
  have r: "wait_posix linux_macros posix_late 42 [] =
     Some (9, [SysWaitpid 42, Err [S ''waitpid'', I 42], SysWaitpid 42,
               Err [S ''waitpid'', I 42], SysWaitpid 42])"
    using wait_posix_reaps [of posix_late 2 42 "0x0900" linux_macros "[]"]
    by (simp add: wait_eval posix_late_def)
  from g have g0: "waitpid_value (waitpid_ret posix_gone 0 42) \<noteq> 42" ..
  from l r g0 n show ?thesis
    by (intro conjI)
qed

text \<open>
  Counterexample to C3 as stated: every \<^verbatim>\<open>waitpid\<close> call fails with \<^verbatim>\<open>ECHILD\<close>, which is
  no transient interruption.  \<^verbatim>\<open>wait\<close> does not stop after the failure: it calls again
  for ever and never returns.
\<close>

theorem wait_retries_counterexample:
  "waitpid_ret posix_gone 0 42 = WaitError ECHILD \<and>
   wait_posix linux_macros posix_gone 42 [] = None"
  by (simp add: wait_posix_def wait_loop_never posix_gone_def posix_ok_def waitpid_value_def)

subsection \<open>C4: kill and quit report a failure\<close>

text \<open>
  C4, as amended.  \<^verbatim>\<open>kill\<close> and \<^verbatim>\<open>quit\<close> return nothing (\<^verbatim>\<open>void\<close>).  When the process
  cannot be signaled, the failure is handed to the reporting helper (\<^verbatim>\<open>sys::err\<close>,
  \<^verbatim>\<open>sys::warn\<close> or \<^verbatim>\<open>sys::win::err\<close>) and the function returns normally: on POSIX when
  \<^verbatim>\<open>::kill\<close> fails, on the handle-based platform when the process handle cannot be opened,
  when \<^verbatim>\<open>TerminateProcess\<close> fails, or when \<^verbatim>\<open>sys::win::msg::quit\<close> answers true.
\<close>

theorem signal_failure_is_reported:
  "(fail (kill_ret os pid SIGTERM) \<longrightarrow>
      kill_posix os pid tr = ((), tr @ [SysKill pid SIGTERM, Err [S ''SIGTERM'', I pid]])) \<and>
   (fail (kill_ret os pid SIGINT) \<longrightarrow>
      quit_posix os pid tr = ((), tr @ [SysKill pid SIGINT, Err [S ''SIGINT'', I pid]])) \<and>
   (fail_handle (open_process w pid) \<longrightarrow>
      kill_win w pid wtr = ((), wtr @ [OpenProcess pid, WinWarn [I pid]])) \<and>
   (\<not> fail_handle (open_process w pid) \<and> \<not> terminate_process w (open_process w pid) \<longrightarrow>
      kill_win w pid wtr =
        ((), wtr @ [OpenProcess pid, TerminateProcess (open_process w pid) 0,
                    WinErr [S ''TerminateProcess'', I pid], CloseHandle (open_process w pid)])) \<and>
   (msg_quit w pid \<longrightarrow> quit_win w pid wtr = ((), wtr @ [MsgQuit pid, WinWarn [I pid]]))"
  by (simp add: kill_posix_def quit_posix_def kill_win_def quit_win_def Let_def
      process_ctor_def handle_dtor_def)

text \<open>Witness of C4: the process 42 is gone, and its identifier is stale.\<close>

theorem signal_failure_is_reported_witness:
  "fail (kill_ret posix_gone 42 SIGTERM) \<and>
   kill_posix posix_gone 42 [] = ((), [SysKill 42 SIGTERM, Err [S ''SIGTERM'', I 42]]) \<and>
   fail (kill_ret posix_gone 42 SIGINT) \<and>
   quit_posix posix_gone 42 [] = ((), [SysKill 42 SIGINT, Err [S ''SIGINT'', I 42]]) \<and>
   fail_handle (open_process windows_stale 42) \<and>
   kill_win windows_stale 42 [] = ((), [OpenProcess 42, WinWarn [I 42]])"
  using signal_failure_is_reported [of posix_gone 42 "[]" windows_stale "[]"]
  by (simp add: posix_gone_def posix_ok_def windows_stale_def windows_ok_def fail_def invalid_def
      fail_handle_def)

text \<open>
  Counterexample to C4 as stated: \<^verbatim>\<open>kill\<close> on a process that has already exited returns
  the same value as \<^verbatim>\<open>kill\<close> on a live one, the only value of its result type.  The
  failure shows in the report alone.
\<close>

theorem kill_returns_nothing_counterexample:
  "fail (kill_ret posix_gone 42 SIGTERM) \<and> \<not> fail (kill_ret posix_ok 42 SIGTERM) \<and>
   fst (kill_posix posix_gone 42 []) = fst (kill_posix posix_ok 42 []) \<and>
   kill_posix posix_gone 42 [] = ((), [SysKill 42 SIGTERM, Err [S ''SIGTERM'', I 42]]) \<and>
   kill_posix posix_ok 42 [] = ((), [SysKill 42 SIGTERM])"
  by (simp add: kill_posix_def posix_gone_def posix_ok_def Let_def fail_def invalid_def)

subsection \<open>C5: the child of fork\<close>





subsection \<open>C6: the parent's ends are made non-inheritable\<close>

text \<open>
  C6.  On the handle-based backend, whatever calls \<open>tr\<close> were made before, once the three
  pipes are allocated \<^verbatim>\<open>run\<close> clears the inheritance flag
  (\<^verbatim>\<open>SetHandleInformation(h, HANDLE_FLAG_INHERIT, false)\<close>) of the write end of the first
  pipe and of the read ends of the second and third, in this order and before anything
  else, so before any process is created; when one of the three calls fails, \<^verbatim>\<open>run\<close>
  returns the failure value and \<^verbatim>\<open>CreateProcess\<close> is never called.  The marked ends are
  the ones the parent keeps: a process that is created gets the other three as its
  standard handles.  \<open>new\<close> is what \<^verbatim>\<open>run\<close> adds to the calls made before.
\<close>

theorem marks_before_creation:
  assumes "create_pipe w 0 = Some (r0, w0)" and "create_pipe w 1 = Some (r1, w1)"
    and "create_pipe w 2 = Some (r2, w2)"
    and "run_win w fd argv tr = (res, wtr)"
  shows "\<exists>new. wtr = tr @ new \<and>
         (set_handle_information w (Some w0) \<and> set_handle_information w (Some r1) \<and>
          set_handle_information w (Some r2) \<longrightarrow>
            (\<exists>rest. new = [CreatePipe, CreatePipe, CreatePipe,
                           SetHandleInformation (Some w0) HANDLE_FLAG_INHERIT False,
                           SetHandleInformation (Some r1) HANDLE_FLAG_INHERIT False,
                           SetHandleInformation (Some r2) HANDLE_FLAG_INHERIT False] @ rest)) \<and>
         (\<not> (set_handle_information w (Some w0) \<and> set_handle_information w (Some r1) \<and>
             set_handle_information w (Some r2)) \<longrightarrow>
            res = WReturns invalid fd \<and> (\<forall>c a b d. CreateProcess c a b d \<notin> set new)) \<and>
         (\<forall>c a b d. CreateProcess c a b d \<in> set new \<longrightarrow>
            a = Some r0 \<and> b = Some w1 \<and> d = Some w2)"
proof -
  let ?new = "snd (run_win w fd argv [])"
  from assms(4) run_win_shift [of w fd argv tr]
  have s: "run_win w fd argv [] = (res, ?new)" and t: "wtr = tr @ ?new"
    by (simp_all add: prod_eq_iff)
  have p: "fst (wpipe_ctor w 0 []) = (Some r0, Some w0)"
    "fst (wpipe_ctor w 1 []) = (Some r1, Some w1)"
    "fst (wpipe_ctor w 2 []) = (Some r2, Some w2)"
    using assms(1-3) by (simp_all add: wpipe_ctor_def)
  obtain new where n: "run_win w fd argv [] = (res, new)"
    using s by blast
  note u = n [unfolded run_win_unfold mark_loop_3 Let_def p]
  have "(set_handle_information w (Some w0) \<and> set_handle_information w (Some r1) \<and>
          set_handle_information w (Some r2) \<longrightarrow>
            (\<exists>rest. new = [CreatePipe, CreatePipe, CreatePipe,
                           SetHandleInformation (Some w0) HANDLE_FLAG_INHERIT False,
                           SetHandleInformation (Some r1) HANDLE_FLAG_INHERIT False,
                           SetHandleInformation (Some r2) HANDLE_FLAG_INHERIT False] @ rest)) \<and>
         (\<not> (set_handle_information w (Some w0) \<and> set_handle_information w (Some r1) \<and>
             set_handle_information w (Some r2)) \<longrightarrow>
            res = WReturns invalid fd \<and> (\<forall>c a b d. CreateProcess c a b d \<notin> set new)) \<and>
         (\<forall>c a b d. CreateProcess c a b d \<in> set new \<longrightarrow>
            a = Some r0 \<and> b = Some w1 \<and> d = Some w2)"
    using u
    by (auto simp: fail_wpipe_def fail_handle_def handle_dtor_def wpipe_dtor_def
        split: if_splits sum.splits format_error.splits option.splits)
  moreover from n s t have "wtr = tr @ new"
    by simp
  ultimately show ?thesis by blast
qed

text \<open>
  Witness of C6, \<^verbatim>\<open>run\<close> being called after an earlier \<^verbatim>\<open>OpenProcess\<close>: on the sample
  system the three marks precede \<^verbatim>\<open>CreateProcess\<close>; when the read end 102 of the second
  pipe cannot be marked, \<^verbatim>\<open>run\<close> fails and creates nothing.
\<close>

theorem marks_before_creation_witness:
  "create_pipe windows_ok 0 = Some (100, 101) \<and> create_pipe windows_ok 1 = Some (102, 103) \<and>
   create_pipe windows_ok 2 = Some (104, 105) \<and>
   set_handle_information windows_ok (Some 101) \<and> set_handle_information windows_ok (Some 102) \<and>
   set_handle_information windows_ok (Some 104) \<and>
   take 8 (snd (run_win windows_ok [-1, -1, -1] [''ls''] [OpenProcess 41])) =
     [OpenProcess 41,
      CreatePipe, CreatePipe, CreatePipe,
      SetHandleInformation (Some 101) HANDLE_FLAG_INHERIT False,
      SetHandleInformation (Some 102) HANDLE_FLAG_INHERIT False,
      SetHandleInformation (Some 104) HANDLE_FLAG_INHERIT False,
      CreateProcess ''ls '' (Some 100) (Some 103) (Some 105)] \<and>
   \<not> set_handle_information windows_no_mark (Some 102) \<and>
   run_win windows_no_mark [-1, -1, -1] [''ls''] [OpenProcess 41] =
     (WReturns invalid [-1, -1, -1],
      [OpenProcess 41,
       CreatePipe, CreatePipe, CreatePipe,
       SetHandleInformation (Some 101) HANDLE_FLAG_INHERIT False,
       SetHandleInformation (Some 102) HANDLE_FLAG_INHERIT False,
       WinErr [S ''SetHandleInformation''],
       CloseHandle (Some 105), CloseHandle (Some 104), CloseHandle (Some 103),
       CloseHandle (Some 102), CloseHandle (Some 101), CloseHandle (Some 100)])"
proof -
  have p: "create_pipe windows_ok 0 = Some (100, 101)" "create_pipe windows_ok 1 = Some (102, 103)"
    "create_pipe windows_ok 2 = Some (104, 105)"
    by (simp_all add: windows_ok_def)
  have q: "create_pipe windows_no_mark 0 = Some (100, 101)"
    "create_pipe windows_no_mark 1 = Some (102, 103)"
    "create_pipe windows_no_mark 2 = Some (104, 105)"
    by (simp_all add: windows_no_mark_def windows_ok_def)
  have s: "set_handle_information windows_ok (Some 101)"
    "set_handle_information windows_ok (Some 102)" "set_handle_information windows_ok (Some 104)"
    "\<not> set_handle_information windows_no_mark (Some 102)"
    by (simp_all add: windows_no_mark_def windows_ok_def)
  have a: "run_win windows_ok [-1, -1, -1] [''ls''] [OpenProcess 41] =
     (WReturns 4242 [4, 5, 7],
      [OpenProcess 41,
       CreatePipe, CreatePipe, CreatePipe,
       SetHandleInformation (Some 101) HANDLE_FLAG_INHERIT False,
       SetHandleInformation (Some 102) HANDLE_FLAG_INHERIT False,
       SetHandleInformation (Some 104) HANDLE_FLAG_INHERIT False,
       CreateProcess ''ls '' (Some 100) (Some 103) (Some 105),
       OpenOsfhandle (Some 101) O_WRONLY, OpenOsfhandle (Some 102) O_RDONLY,
       OpenOsfhandle (Some 104) O_RDONLY, CloseHandle (Some 201),
       CloseHandle (Some 105), CloseHandle (Some 103), CloseHandle (Some 100)])"
    by (simp add: windows_eval)
  have b: "run_win windows_no_mark [-1, -1, -1] [''ls''] [OpenProcess 41] =
     (WReturns invalid [-1, -1, -1],
      [OpenProcess 41,
       CreatePipe, CreatePipe, CreatePipe,
       SetHandleInformation (Some 101) HANDLE_FLAG_INHERIT False,
       SetHandleInformation (Some 102) HANDLE_FLAG_INHERIT False,
       WinErr [S ''SetHandleInformation''],
       CloseHandle (Some 105), CloseHandle (Some 104), CloseHandle (Some 103),
       CloseHandle (Some 102), CloseHandle (Some 101), CloseHandle (Some 100)])"
    by (simp add: windows_eval)
  from marks_before_creation [OF p a] s
  have "\<exists>rest. snd (run_win windows_ok [-1, -1, -1] [''ls''] [OpenProcess 41]) =
      [OpenProcess 41,
       CreatePipe, CreatePipe, CreatePipe,
       SetHandleInformation (Some 101) HANDLE_FLAG_INHERIT False,
       SetHandleInformation (Some 102) HANDLE_FLAG_INHERIT False,
       SetHandleInformation (Some 104) HANDLE_FLAG_INHERIT False] @ rest"
    by (simp add: a)
  with p s a b show ?thesis by simp
qed

subsection \<open>C7: the actions of kill and quit\<close>

text \<open>
  C7, as amended.  Whatever calls were made before: on POSIX the only signal \<^verbatim>\<open>kill\<close>
  sends is \<^verbatim>\<open>SIGTERM\<close> to the given process and the only signal \<^verbatim>\<open>quit\<close> sends is
  \<^verbatim>\<open>SIGINT\<close>, and the two signals differ; on the handle-based platform \<^verbatim>\<open>kill\<close> first
  opens the process: when that succeeds it asks for the termination of the process with
  the exit code 0 and for nothing else, and when the process cannot be opened it asks
  for no termination at all and only warns.
\<close>

theorem kill_and_quit_actions:
  "(\<exists>new. snd (kill_posix os pid tr) = tr @ new \<and>
          filter is_signal new = [SysKill pid SIGTERM]) \<and>
   (\<exists>new. snd (quit_posix os pid tr) = tr @ new \<and>
          filter is_signal new = [SysKill pid SIGINT]) \<and>
   SIGTERM \<noteq> SIGINT \<and>
   (\<exists>new. snd (kill_win w pid wt) = wt @ new \<and>
          (\<not> fail_handle (open_process w pid) \<longrightarrow>
             filter is_terminate new = [TerminateProcess (open_process w pid) 0]) \<and>
          (fail_handle (open_process w pid) \<longrightarrow>
             new = [OpenProcess pid, WinWarn [I pid]]))"
  by (simp add: kill_posix_def quit_posix_def kill_win_def Let_def process_ctor_def
      handle_dtor_def SIGTERM_def SIGINT_def)

text \<open>
  Witness of C7 on the sample systems, after an earlier call: a process that can be opened,
  and one that cannot.
\<close>

theorem kill_and_quit_actions_witness:
  "snd (kill_posix posix_ok 42 [SysWaitpid 41]) = [SysWaitpid 41, SysKill 42 15] \<and>
   snd (quit_posix posix_ok 42 [SysWaitpid 41]) = [SysWaitpid 41, SysKill 42 2] \<and>
   \<not> fail_handle (open_process windows_ok 42) \<and>
   snd (kill_win windows_ok 42 [OpenProcess 41]) =
     [OpenProcess 41, OpenProcess 42, TerminateProcess (Some 300) 0, CloseHandle (Some 300)] \<and>
   fail_handle (open_process windows_stale 42) \<and>
   snd (kill_win windows_stale 42 [OpenProcess 41]) =
     [OpenProcess 41, OpenProcess 42, WinWarn [I 42]]"
proof -
  have o: "\<not> fail_handle (open_process windows_ok 42)"
    "fail_handle (open_process windows_stale 42)"
    by (simp_all add: windows_stale_def windows_ok_def fail_handle_def)
  from kill_and_quit_actions [of posix_ok 42 "[SysWaitpid 41]" windows_stale "[OpenProcess 41]"]
    o(2)
  have "snd (kill_win windows_stale 42 [OpenProcess 41]) =
     [OpenProcess 41, OpenProcess 42, WinWarn [I 42]]"
    by auto
  with o show ?thesis
    by (simp add: kill_posix_def quit_posix_def kill_win_def Let_def process_ctor_def
        handle_dtor_def SIGTERM_def SIGINT_def posix_ok_def windows_ok_def fail_def invalid_def)
qed

text \<open>
  Counterexample to C7 as stated: the identifier 42 is stale and the process cannot be
  opened.  \<^verbatim>\<open>kill\<close> asks for no termination: it opens, warns and returns.
\<close>

theorem kill_stale_counterexample:
  "fail_handle (open_process windows_stale 42) \<and>
   kill_win windows_stale 42 [] = ((), [OpenProcess 42, WinWarn [I 42]]) \<and>
   filter is_terminate (snd (kill_win windows_stale 42 [])) = []"
  by (simp add: kill_win_def Let_def process_ctor_def handle_dtor_def windows_stale_def
      windows_ok_def fail_handle_def)

subsection \<open>C8: a raw status of no expected shape\<close>

text \<open>
  C8, as amended.  When the raw status that the loop of \<^verbatim>\<open>wait\<close> ends with is neither
  exited nor stopped nor signaled, \<^verbatim>\<open>wait\<close> returns that raw status itself, as a plain
  integer without a tag.
\<close>

theorem wait_posix_anomaly:
  assumes "wait_loop os pid 0 (-1) tr = Some (st, tr')"
    and "\<not> WIFEXITED m st" and "\<not> WIFSTOPPED m st" and "\<not> WIFSIGNALED m st"
  shows "wait_posix m os pid tr = Some (st, tr')"
  using assms by (simp add: wait_posix_def decode_status_def)

text \<open>Witness of C8 on Linux: the raw status \<^verbatim>\<open>0xff\<close> has none of the three shapes.\<close>

theorem wait_posix_anomaly_witness:
  "wait_loop (posix_status 0xff) 42 0 (-1) [] = Some (0xff, [SysWaitpid 42]) \<and>
   \<not> WIFEXITED linux_macros 0xff \<and> \<not> WIFSTOPPED linux_macros 0xff \<and>
   \<not> WIFSIGNALED linux_macros 0xff \<and>
   wait_posix linux_macros (posix_status 0xff) 42 [] = Some (0xff, [SysWaitpid 42])"
proof -
  have l: "wait_loop (posix_status 0xff) 42 0 (-1) [] = Some (0xff, [SysWaitpid 42])"
    by (simp add: wait_eval)
  have a: "\<not> WIFEXITED linux_macros 0xff" and b: "\<not> WIFSTOPPED linux_macros 0xff"
    and c: "\<not> WIFSIGNALED linux_macros 0xff"
    by (simp_all add: linux_macros_def)
  from wait_posix_anomaly [OF l a b c] l a b c show ?thesis by simp
qed

text \<open>
  Counterexample to C8 as stated: the raw status \<^verbatim>\<open>0xff\<close> has none of the three shapes
  and \<^verbatim>\<open>wait\<close> returns 255 for it, which is also what it returns for a normal exit with
  code 255 (raw status \<^verbatim>\<open>0xff00\<close>).  The caller cannot tell the two apart.
\<close>

theorem wait_anomaly_counterexample:
  "\<not> WIFEXITED linux_macros 0xff \<and> \<not> WIFSTOPPED linux_macros 0xff \<and>
   \<not> WIFSIGNALED linux_macros 0xff \<and> WIFEXITED linux_macros 0xff00 \<and>
   wait_posix linux_macros (posix_status 0xff) 42 [] = Some (255, [SysWaitpid 42]) \<and>
   wait_posix linux_macros (posix_status 0xff00) 42 [] = Some (255, [SysWaitpid 42])"
  by (simp add: wait_eval)

subsection \<open>C9: the command line of the handle-based run\<close>

text \<open>
  C9, at the argument vector \<^verbatim>\<open>{"a", "b"}\<close>.  The claim says that the elements are
  concatenated, separated by single spaces.  The loop stores \<^verbatim>\<open>"a "\<close> and its null
  character, then steps over that null character (\<^verbatim>\<open>j += n\<close> in the body and \<^verbatim>\<open>++j\<close> in
  the header) and stores \<^verbatim>\<open>"b "\<close> behind it.  The command line that \<^verbatim>\<open>CreateProcess\<close>
  receives ends at the first null character: it is \<^verbatim>\<open>"a "\<close>, and \<^verbatim>\<open>"b"\<close> is lost.
\<close>

theorem command_line_loses_arguments:
  "format_loop windows_ok [''a'', ''b''] 0 0 (replicate MAX_PATH NUL) =
     Inr (''a '' @ [NUL] @ ''b '' @ [NUL] @ replicate 254 NUL) \<and>
   c_str (''a '' @ [NUL] @ ''b '' @ [NUL] @ replicate 254 NUL) = ''a '' \<and>
   run_win windows_ok [-1, -1, -1] [''a'', ''b''] [] =
     (WReturns 4242 [4, 5, 7],
      [CreatePipe, CreatePipe, CreatePipe,
       SetHandleInformation (Some 101) HANDLE_FLAG_INHERIT False,
       SetHandleInformation (Some 102) HANDLE_FLAG_INHERIT False,
       SetHandleInformation (Some 104) HANDLE_FLAG_INHERIT False,
       CreateProcess ''a '' (Some 100) (Some 103) (Some 105),
       OpenOsfhandle (Some 101) O_WRONLY, OpenOsfhandle (Some 102) O_RDONLY,
       OpenOsfhandle (Some 104) O_RDONLY, CloseHandle (Some 201),
       CloseHandle (Some 105), CloseHandle (Some 103), CloseHandle (Some 100)])"
  by (simp add: windows_eval)

subsection \<open>C10: wait on a stale identifier, handle-based\<close>

text \<open>
  C10.  On the handle-based backend, when no process handle can be opened from the
  identifier, \<^verbatim>\<open>wait\<close> warns and returns \<open>-1\<close>, the integer cast of the invalid sentinel,
  without calling \<^verbatim>\<open>WaitForSingleObject\<close>; and \<open>-1\<close> is also what \<^verbatim>\<open>wait\<close> returns for a
  process that has ended with the exit code \<^verbatim>\<open>0xFFFFFFFF\<close>.
\<close>

theorem wait_win_stale:
  assumes "fail_handle (open_process os pid)"
    and "open_process os' pid = Some h"
    and "wait_for_single_object os' (Some h) = WAIT_OBJECT_0"
    and "get_exit_code_process os' (Some h) = Some (word_of_int invalid)"
  shows "wait_win os pid tr = Some (-1, tr @ [OpenProcess pid, WinWarn [I pid]]) \<and>
         wait_win os' pid tr =
           Some (-1, tr @ [OpenProcess pid, WaitForSingleObject (Some h),
                           GetExitCodeProcess (Some h), CloseHandle (Some h)])"
  using assms
  by (simp add: wait_win_def Let_def process_ctor_def handle_dtor_def fail_handle_def invalid_def)

text \<open>Witness of C10: a stale identifier, and a process that ended with \<^verbatim>\<open>0xFFFFFFFF\<close>.\<close>

theorem wait_win_stale_witness:
  "fail_handle (open_process windows_stale 7) \<and>
   open_process windows_exit_minus_one 7 = Some 300 \<and>
   wait_for_single_object windows_exit_minus_one (Some 300) = WAIT_OBJECT_0 \<and>
   get_exit_code_process windows_exit_minus_one (Some 300) = Some (word_of_int invalid) \<and>
   wait_win windows_stale 7 [] = Some (-1, [OpenProcess 7, WinWarn [I 7]]) \<and>
   wait_win windows_exit_minus_one 7 [] =
     Some (-1, [OpenProcess 7, WaitForSingleObject (Some 300),
                GetExitCodeProcess (Some 300), CloseHandle (Some 300)])"
proof -
  have a: "fail_handle (open_process windows_stale 7)"
    by (simp add: windows_stale_def windows_ok_def fail_handle_def)
  have b: "open_process windows_exit_minus_one 7 = Some 300"
    and c: "wait_for_single_object windows_exit_minus_one (Some 300) = WAIT_OBJECT_0"
    and d: "get_exit_code_process windows_exit_minus_one (Some 300) = Some (word_of_int invalid)"
    by (simp_all add: windows_exit_minus_one_def windows_ok_def invalid_def)
  from wait_win_stale [OF a b c d, of "[]"] a b c d show ?thesis by simp
qed

end
